theory Spec2Isabelle
  imports Complex_Main
begin

section \<open>Data model of app.py\<close>

text \<open>
  The scenario engine of app.py works on one pandas DataFrame, \<open>base_numbers\<close>, whose
  columns are the eight travel modes and whose rows are pkt, vkt and emissions for 2018,
  the 2030 baseline and the 2030 scenario. Numbers are modelled as reals: arithmetic is
  exact, there is no rounding and no inf or nan. A cell written through
  \<open>base_numbers.loc[row][col]\<close> is taken to reach the frame itself (the row of a
  one-dtype float frame is a view of it), which is what every stage of the program relies on.
\<close>

datatype mode =
  passenger_light | electric_light | walking | cycling
  | diesel_bus | electric_bus | heavy_rail | light_rail

text \<open>The column labels; the program tests membership of a mode in lists of such labels.\<close>

fun mode_name :: "mode \<Rightarrow> string" where
  "mode_name passenger_light = ''passenger_light''"
| "mode_name electric_light = ''electric_light''"
| "mode_name walking = ''walking''"
| "mode_name cycling = ''cycling''"
| "mode_name diesel_bus = ''diesel_bus''"
| "mode_name electric_bus = ''electric_bus''"
| "mode_name heavy_rail = ''heavy_rail''"
| "mode_name light_rail = ''light_rail''"

type_synonym row = "mode \<Rightarrow> real"

record dataset =
  pkt_2018 :: row
  vkt_2018 :: row
  pkt_2030_baseline :: row
  vkt_2030_baseline :: row
  pkt_2030_scenario :: row
  vkt_2030_scenario :: row
  emissions_2018 :: row
  emissions_2030_baseline :: row
  emissions_2030_scenario :: row

record emission_factors =
  values_2018 :: row
  values_2030_baseline :: row
  values_2030_scenario :: row

text \<open>
  The table of transit projects: \<open>pt_index\<close> is the frame's index (the project
  identifiers, taken to be distinct keys), the other fields are its columns.
\<close>

record pt_details =
  pt_index :: "string list"
  primary_mode :: "string \<Rightarrow> mode"
  peak_freq :: "string \<Rightarrow> real"
  off_peak_freq :: "string \<Rightarrow> real"
  vehicle_capacity :: "string \<Rightarrow> real"
  distance :: "string \<Rightarrow> real"
  num_peak_hrs :: "string \<Rightarrow> real"
  num_hours :: "string \<Rightarrow> real"

text \<open>
  The dictionary \<open>numbers\<close>. Its key \<open>car_occupancy\<close> is the field
  \<open>car_occupancy_value\<close> (the program also has a function of that name), and its key
  \<open>2018_car_ownership\<close> is \<open>car_ownership_2018\<close>.
\<close>

record numbers =
  pkt_annualisation :: real
  vkt_annualisation :: real
  car_occupancy_value :: real
  mode_sum_pkt :: real
  mode_pkt_no_bike :: real
  bus_lifespan :: real
  private_modes :: "mode list"
  pt_modes :: "mode list"
  car_ownership_2018 :: real
  all_modes :: "mode list"

datatype error = KeyError | UnboundLocalError

type_synonym effects = "string \<rightharpoonup> row"

section \<open>Loading and initialisation\<close>

text \<open>
  \<open>data_load\<close> reads three csv files; the frames read are the arguments here. It then
  fills the three emissions rows.
\<close>

definition data_load ::
  "pt_details \<Rightarrow> dataset \<Rightarrow> emission_factors \<Rightarrow> pt_details \<times> dataset \<times> emission_factors" where
  "data_load pt_csv base_csv ef_csv =
     (let b1 = base_csv\<lparr>emissions_2018 := (\<lambda>m. values_2018 ef_csv m * vkt_2018 base_csv m)\<rparr>;
          b2 = b1\<lparr>emissions_2030_baseline :=
                  (\<lambda>m. values_2030_baseline ef_csv m * vkt_2030_baseline b1 m)\<rparr>;
          b3 = b2\<lparr>emissions_2030_scenario :=
                  (\<lambda>m. values_2030_scenario ef_csv m * vkt_2030_scenario b2 m)\<rparr>
      in (pt_csv, b3, ef_csv))"

definition data_initialisation :: "dataset \<Rightarrow> numbers" where
  "data_initialisation base_numbers =
     (let private = [passenger_light, electric_light, walking, cycling];
          pt = [diesel_bus, electric_bus, heavy_rail, light_rail];
          alls = [passenger_light, electric_light, walking, cycling,
                  diesel_bus, electric_bus, heavy_rail, light_rail];
          (sum_pkt, no_bike) =
            fold (\<lambda>m (s, nb).
                    (s + pkt_2030_baseline base_numbers m,
                     if mode_name m \<noteq> ''cycling'' then nb + pkt_2030_baseline base_numbers m
                     else nb))
                 private (0, 0)
      in \<lparr>pkt_annualisation = 2250, vkt_annualisation = 332, car_occupancy_value = 1.58,
          mode_sum_pkt = sum_pkt, mode_pkt_no_bike = no_bike, bus_lifespan = 15,
          private_modes = private, pt_modes = pt, car_ownership_2018 = 1261016,
          all_modes = alls\<rparr>)"

section \<open>The effect of each transit project\<close>

text \<open>
  The body of the loop over projects in \<open>pt_proj_effects\<close>, on the project's row of
  the vkt frame and of the pkt frame. Both frames are created with every cell unset. What
  an unset cell holds is the row \<open>unset\<close>, an argument of which nothing is assumed:
  a cell has a known value only once the loop has assigned it.
\<close>

definition private_effect ::
  "numbers \<Rightarrow> dataset \<Rightarrow> mode \<Rightarrow> mode \<Rightarrow> row \<times> row \<Rightarrow> row \<times> row" where
  "private_effect nums base_numbers prim m = (\<lambda>(rv, rp).
     (let rp' = rp(m := - pkt_2030_baseline base_numbers m / mode_sum_pkt nums * rp prim);
          rv' = (if mode_name m \<in> set [''passenger_light'', ''electric_light'']
                 then rv(m := rp' m / car_occupancy_value nums)
                 else if mode_name m \<in> set [''walking'', ''cycling'']
                 then rv(m := rp' m)
                 else rv)
      in (rv', rp')))"

definition pt_effect :: "mode \<Rightarrow> mode \<Rightarrow> row \<times> row \<Rightarrow> row \<times> row" where
  "pt_effect prim m = (\<lambda>(rv, rp).
     if m \<noteq> prim then (rv(m := 0), rp(m := 0)) else (rv, rp))"

definition project_rows ::
  "row \<Rightarrow> numbers \<Rightarrow> dataset \<Rightarrow> pt_details \<Rightarrow> string \<Rightarrow> row \<times> row" where
  "project_rows unset nums base_numbers det project =
     (let prim = primary_mode det project;
          rp0 = unset(prim :=
                  (60 / peak_freq det project) * distance det project
                  * pkt_annualisation nums * vehicle_capacity det project * 2 * 2);
          rv0 = unset(prim :=
                  ((60 / peak_freq det project) * num_peak_hrs det project
                   + (60 / off_peak_freq det project)
                     * (num_hours det project - num_peak_hrs det project))
                  * distance det project * vkt_annualisation nums * 2);
          r1 = fold (private_effect nums base_numbers prim) (private_modes nums) (rv0, rp0)
      in fold (pt_effect prim) (pt_modes nums) r1)"

text \<open>\<open>pt_proj_effects\<close> returns the vkt frame first, then the pkt frame.\<close>

definition pt_proj_effects ::
  "row \<Rightarrow> numbers \<Rightarrow> dataset \<Rightarrow> pt_details \<Rightarrow> effects \<times> effects" where
  "pt_proj_effects unset nums base_numbers det =
     fold (\<lambda>project (tv, tp).
             (case project_rows unset nums base_numbers det project of
                (rv, rp) \<Rightarrow> (tv(project \<mapsto> rv), tp(project \<mapsto> rp))))
          (pt_index det) (Map.empty, Map.empty)"

section \<open>The stages of the scenario engine\<close>

text \<open>
  \<open>frame.loc[pt_included]\<close> raises KeyError when a label is not in the index;
  otherwise it selects one row per listed label, and \<open>sum\<close> adds them by column.
\<close>

fun loc_rows :: "effects \<Rightarrow> string list \<Rightarrow> error + row list" where
  "loc_rows t [] = Inr []"
| "loc_rows t (p # ps) =
     (case t p of
        None \<Rightarrow> Inl KeyError
      | Some r \<Rightarrow> (case loc_rows t ps of Inl e \<Rightarrow> Inl e | Inr rs \<Rightarrow> Inr (r # rs)))"

definition sum_rows :: "row list \<Rightarrow> row" where
  "sum_rows rs = (\<lambda>m. sum_list (map (\<lambda>r. r m) rs))"

definition pt_projects_apply ::
  "dataset \<Rightarrow> effects \<Rightarrow> effects \<Rightarrow> string list \<Rightarrow> error + dataset" where
  "pt_projects_apply base_numbers pt_effects_vkt pt_effects_pkt pt_included =
     (if pt_included \<noteq> [] then
        (case loc_rows pt_effects_vkt pt_included of
           Inl e \<Rightarrow> Inl e
         | Inr vs \<Rightarrow>
            (let b1 = base_numbers\<lparr>vkt_2030_scenario :=
                        (\<lambda>m. vkt_2030_scenario base_numbers m + sum_rows vs m)\<rparr>
             in case loc_rows pt_effects_pkt pt_included of
                  Inl e \<Rightarrow> Inl e
                | Inr ps \<Rightarrow>
                    Inr (b1\<lparr>pkt_2030_scenario :=
                              (\<lambda>m. pkt_2030_scenario b1 m + sum_rows ps m)\<rparr>)))
      else Inr base_numbers)"

definition bus_ridership_step :: "numbers \<Rightarrow> real \<Rightarrow> mode \<Rightarrow> dataset \<Rightarrow> dataset" where
  "bus_ridership_step nums bus_change m b =
     (let effect = - pkt_2030_baseline b m / mode_sum_pkt nums * bus_change;
          b1 = b\<lparr>pkt_2030_scenario := (pkt_2030_scenario b)(m := pkt_2030_scenario b m + effect)\<rparr>
      in if mode_name m \<in> set [''passenger_light'', ''electric_light'']
         then b1\<lparr>vkt_2030_scenario :=
                   (vkt_2030_scenario b1)(m := vkt_2030_scenario b1 m
                                               + effect / car_occupancy_value nums)\<rparr>
         else if mode_name m \<in> set [''walking'', ''cycling'']
         then b1\<lparr>vkt_2030_scenario :=
                   (vkt_2030_scenario b1)(m := vkt_2030_scenario b1 m + effect)\<rparr>
         else b1)"

definition bus_ridership_changes :: "numbers \<Rightarrow> dataset \<Rightarrow> real \<Rightarrow> dataset" where
  "bus_ridership_changes nums base_numbers bus_prop_increase =
     (if bus_prop_increase > 0 then
        (let bus_change = pkt_2030_baseline base_numbers diesel_bus * bus_prop_increase;
             b1 = base_numbers\<lparr>pkt_2030_scenario :=
                    (pkt_2030_scenario base_numbers)
                      (diesel_bus := pkt_2030_scenario base_numbers diesel_bus + bus_change)\<rparr>
         in fold (bus_ridership_step nums bus_change) (private_modes nums) b1)
      else base_numbers)"

text \<open>
  In \<open>cycling_changes\<close> the variable \<open>effect\<close> is assigned only when the mode is not
  cycling, and is read for every mode: the loop carries it from one pass to the next, and
  reading it before any assignment raises UnboundLocalError.
\<close>

definition cycling_step ::
  "numbers \<Rightarrow> real \<Rightarrow> mode \<Rightarrow> error + (dataset \<times> real option)
     \<Rightarrow> error + (dataset \<times> real option)" where
  "cycling_step nums cycling_change m st =
     (case st of
        Inl e \<Rightarrow> Inl e
      | Inr (b, effect) \<Rightarrow>
         (let (b1, effect1) =
                (if mode_name m \<noteq> ''cycling'' then
                   (let eff = - pkt_2030_baseline b m / mode_pkt_no_bike nums * cycling_change
                    in (b\<lparr>pkt_2030_scenario :=
                            (pkt_2030_scenario b)(m := pkt_2030_scenario b m + eff)\<rparr>,
                        Some eff))
                 else (b, effect))
          in if mode_name m \<in> set [''passenger_light'', ''electric_light'']
             then (case effect1 of
                     None \<Rightarrow> Inl UnboundLocalError
                   | Some eff \<Rightarrow>
                       Inr (b1\<lparr>vkt_2030_scenario :=
                                 (vkt_2030_scenario b1)(m := vkt_2030_scenario b1 m
                                                             + eff / car_occupancy_value nums)\<rparr>,
                            effect1))
             else if mode_name m \<in> set [''walking'', ''cycling'']
             then (case effect1 of
                     None \<Rightarrow> Inl UnboundLocalError
                   | Some eff \<Rightarrow>
                       Inr (b1\<lparr>vkt_2030_scenario :=
                                 (vkt_2030_scenario b1)(m := vkt_2030_scenario b1 m + eff)\<rparr>,
                            effect1))
             else Inr (b1, effect1)))"

definition cycling_changes :: "numbers \<Rightarrow> dataset \<Rightarrow> real \<Rightarrow> error + dataset" where
  "cycling_changes nums base_numbers cycling_included =
     (if cycling_included > 0 then
        (let cycling_included1 = cycling_included - 1;
             cycling_change = pkt_2030_baseline base_numbers cycling * cycling_included1;
             b1 = base_numbers\<lparr>pkt_2030_scenario :=
                    (pkt_2030_scenario base_numbers)
                      (cycling := pkt_2030_scenario base_numbers cycling + cycling_change)\<rparr>
         in case fold (cycling_step nums cycling_change) (private_modes nums) (Inr (b1, None)) of
              Inl e \<Rightarrow> Inl e
            | Inr (b2, _) \<Rightarrow> Inr b2)
      else Inr base_numbers)"

definition bus_electric :: "numbers \<Rightarrow> dataset \<Rightarrow> int \<Rightarrow> dataset" where
  "bus_electric nums base_numbers bus_electrification_included =
     (if bus_electrification_included > 2019 then
        (let prop = real_of_int (2030 - bus_electrification_included) / bus_lifespan nums;
             bus_vkt_shift = vkt_2030_scenario base_numbers diesel_bus * prop;
             b1 = base_numbers\<lparr>vkt_2030_scenario :=
                    (vkt_2030_scenario base_numbers)
                      (diesel_bus := vkt_2030_scenario base_numbers diesel_bus + - bus_vkt_shift)\<rparr>;
             b2 = b1\<lparr>vkt_2030_scenario :=
                    (vkt_2030_scenario b1)
                      (electric_bus := vkt_2030_scenario b1 electric_bus + bus_vkt_shift)\<rparr>;
             bus_pkt_shift = pkt_2030_scenario b2 diesel_bus * prop;
             b3 = b2\<lparr>pkt_2030_scenario :=
                    (pkt_2030_scenario b2)
                      (diesel_bus := pkt_2030_scenario b2 diesel_bus + - bus_pkt_shift)\<rparr>
         in b3\<lparr>pkt_2030_scenario :=
                 (pkt_2030_scenario b3)
                   (electric_bus := pkt_2030_scenario b3 electric_bus + bus_pkt_shift)\<rparr>)
      else base_numbers)"

definition car_electric :: "dataset \<Rightarrow> real \<Rightarrow> dataset" where
  "car_electric base_numbers car_electrification_included =
     (if car_electrification_included > 0 then
        (let car_vkt_shift =
               vkt_2030_scenario base_numbers passenger_light * car_electrification_included;
             b1 = base_numbers\<lparr>vkt_2030_scenario :=
                    (vkt_2030_scenario base_numbers)
                      (passenger_light :=
                         vkt_2030_scenario base_numbers passenger_light + - car_vkt_shift)\<rparr>;
             b2 = b1\<lparr>vkt_2030_scenario :=
                    (vkt_2030_scenario b1)
                      (electric_light := vkt_2030_scenario b1 electric_light + car_vkt_shift)\<rparr>;
             car_pkt_shift = pkt_2030_scenario b2 passenger_light * car_electrification_included;
             b3 = b2\<lparr>pkt_2030_scenario :=
                    (pkt_2030_scenario b2)
                      (passenger_light := pkt_2030_scenario b2 passenger_light + - car_pkt_shift)\<rparr>
         in b3\<lparr>pkt_2030_scenario :=
                 (pkt_2030_scenario b3)
                   (electric_light := pkt_2030_scenario b3 electric_light + car_pkt_shift)\<rparr>)
      else base_numbers)"

definition car_occupancy :: "dataset \<Rightarrow> real \<Rightarrow> dataset" where
  "car_occupancy base_numbers occupancy_included =
     (if occupancy_included > 0 then
        (let b1 = base_numbers\<lparr>vkt_2030_scenario :=
                    (vkt_2030_scenario base_numbers)
                      (passenger_light :=
                         pkt_2030_scenario base_numbers passenger_light / occupancy_included)\<rparr>
         in b1\<lparr>vkt_2030_scenario :=
                 (vkt_2030_scenario b1)
                   (electric_light := pkt_2030_scenario b1 electric_light / occupancy_included)\<rparr>)
      else base_numbers)"

definition calculate_emissions :: "dataset \<Rightarrow> emission_factors \<Rightarrow> real \<Rightarrow> dataset" where
  "calculate_emissions base_numbers ef car_emission_change =
     (let b1 = base_numbers\<lparr>emissions_2030_scenario :=
                 (\<lambda>m. values_2030_scenario ef m * vkt_2030_scenario base_numbers m)\<rparr>
      in b1\<lparr>emissions_2030_scenario :=
              (emissions_2030_scenario b1)
                (passenger_light :=
                   emissions_2030_scenario b1 passenger_light * (1 - car_emission_change))\<rparr>)"

text \<open>
  The second membership test of \<open>covid_trips\<close> lists \<open>light_fleet\<close>, which is the
  label of no column, and \<open>electric_light\<close>.
\<close>

definition covid_step :: "numbers \<Rightarrow> real \<Rightarrow> mode \<Rightarrow> dataset \<Rightarrow> dataset" where
  "covid_step nums covid m b =
     (let b1 = b\<lparr>pkt_2030_scenario :=
                 (pkt_2030_scenario b)(m := (1 - (covid / 100)) * pkt_2030_scenario b m)\<rparr>
      in if mode_name m \<in> set [''cycling'', ''walking'']
         then b1\<lparr>vkt_2030_scenario := (vkt_2030_scenario b1)(m := pkt_2030_scenario b1 m)\<rparr>
         else if mode_name m \<in> set [''light_fleet'', ''electric_light'']
         then b1\<lparr>vkt_2030_scenario :=
                   (vkt_2030_scenario b1)(m := pkt_2030_scenario b1 m / car_occupancy_value nums)\<rparr>
         else b1)"

definition covid_trips :: "dataset \<Rightarrow> real \<Rightarrow> numbers \<Rightarrow> dataset" where
  "covid_trips base_numbers covid nums = fold (covid_step nums covid) (all_modes nums) base_numbers"

section \<open>Module initialisation and the callback\<close>

text \<open>
  The module-level names bound once when the program starts: the three frames returned by
  \<open>data_load\<close>, the dictionary of \<open>data_initialisation\<close> and the two frames of
  \<open>pt_proj_effects\<close>. The first argument of \<open>initialisation\<close> is the content of
  the unset cells that \<open>pt_proj_effects\<close> starts from.
\<close>

record globals =
  pt_details :: pt_details
  master_base_numbers :: dataset
  emission_factors :: emission_factors
  numbers :: numbers
  pt_effects_vkt :: effects
  pt_effects_pkt :: effects

definition initialisation ::
  "row \<Rightarrow> pt_details \<Rightarrow> dataset \<Rightarrow> emission_factors \<Rightarrow> globals" where
  "initialisation unset pt_csv base_csv ef_csv =
     (case data_load pt_csv base_csv ef_csv of
        (det, master, ef) \<Rightarrow>
          (let nums = data_initialisation master
           in case pt_proj_effects unset nums master det of
                (tv, tp) \<Rightarrow>
                  \<lparr>pt_details = det, master_base_numbers = master, emission_factors = ef,
                   numbers = nums, pt_effects_vkt = tv, pt_effects_pkt = tp\<rparr>))"

text \<open>
  \<open>update_graph\<close> up to the end of the stage sequence: the frame it returns here is the
  one the figures and labels are then drawn from. Its first argument stands for the module
  globals; \<open>master_base_numbers.copy()\<close> gives the stages a frame of their own, which in
  this value-level function is the value of the master frame.
\<close>

definition update_graph ::
  "globals \<Rightarrow> real \<Rightarrow> real \<Rightarrow> int \<Rightarrow> real \<Rightarrow> real \<Rightarrow> string list \<Rightarrow> real \<Rightarrow> real
     \<Rightarrow> error + dataset" where
  "update_graph g cycling_included bus_prop_increase bus_electrification_included
       occupancy_included car_electrification_included pt_included car_emission_change covid =
     (let occupancy_included1 = occupancy_included / 100;
          car_electrification_included1 = car_electrification_included / 100;
          base_numbers = master_base_numbers g
      in case pt_projects_apply base_numbers (pt_effects_vkt g) (pt_effects_pkt g) pt_included of
           Inl e \<Rightarrow> Inl e
         | Inr b1 \<Rightarrow>
            (let b2 = bus_ridership_changes (numbers g) b1 bus_prop_increase
             in case cycling_changes (numbers g) b2 cycling_included of
                  Inl e \<Rightarrow> Inl e
                | Inr b3 \<Rightarrow>
                   (let b4 = bus_electric (numbers g) b3 bus_electrification_included;
                        b5 = car_electric b4 car_electrification_included1;
                        b6 = covid_trips b5 covid (numbers g);
                        b7 = car_occupancy b6 occupancy_included1
                    in Inr (calculate_emissions b7 (emission_factors g) car_emission_change))))"

subsection \<open>The working copy as an object of its own\<close>

text \<open>
  Every stage changes the frame it is given in place and returns that same frame. To say
  which frame a run of \<open>update_graph\<close> writes to, frames live in a store of objects:
  \<open>copy\<close> allocates a new object with the contents of the one copied, and a stage
  applied in place replaces the contents of the object it is given.
\<close>

type_synonym ref = nat

record store =
  frames :: "ref \<Rightarrow> dataset"
  fresh :: ref

definition copy_frame :: "ref \<Rightarrow> store \<Rightarrow> ref \<times> store" where
  "copy_frame r s =
     (fresh s, s\<lparr>frames := (frames s)(fresh s := frames s r), fresh := Suc (fresh s)\<rparr>)"

definition put_frame :: "ref \<Rightarrow> dataset \<Rightarrow> store \<Rightarrow> store" where
  "put_frame r d s = s\<lparr>frames := (frames s)(r := d)\<rparr>"

definition in_place :: "(dataset \<Rightarrow> dataset) \<Rightarrow> ref \<Rightarrow> store \<Rightarrow> store" where
  "in_place f r s = put_frame r (f (frames s r)) s"

text \<open>
  The same stage sequence on the store; \<open>master\<close> is the object that the module name
  \<open>master_base_numbers\<close> is bound to. An exception leaves the store as it is when raised.
\<close>

definition update_graph_store ::
  "globals \<Rightarrow> ref \<Rightarrow> real \<Rightarrow> real \<Rightarrow> int \<Rightarrow> real \<Rightarrow> real \<Rightarrow> string list \<Rightarrow> real \<Rightarrow> real
     \<Rightarrow> store \<Rightarrow> (error + ref) \<times> store" where
  "update_graph_store g master cycling_included bus_prop_increase bus_electrification_included
       occupancy_included car_electrification_included pt_included car_emission_change covid s =
     (let occupancy_included1 = occupancy_included / 100;
          car_electrification_included1 = car_electrification_included / 100
      in case copy_frame master s of
        (base_numbers, s0) \<Rightarrow>
          (case pt_projects_apply (frames s0 base_numbers) (pt_effects_vkt g) (pt_effects_pkt g)
                  pt_included of
             Inl e \<Rightarrow> (Inl e, s0)
           | Inr b1 \<Rightarrow>
              (let s1 = put_frame base_numbers b1 s0;
                   s2 = in_place (\<lambda>b. bus_ridership_changes (numbers g) b bus_prop_increase)
                          base_numbers s1
               in case cycling_changes (numbers g) (frames s2 base_numbers) cycling_included of
                    Inl e \<Rightarrow> (Inl e, s2)
                  | Inr b3 \<Rightarrow>
                     (let s3 = put_frame base_numbers b3 s2;
                          s4 = in_place (\<lambda>b. bus_electric (numbers g) b bus_electrification_included)
                                 base_numbers s3;
                          s5 = in_place (\<lambda>b. car_electric b car_electrification_included1)
                                 base_numbers s4;
                          s6 = in_place (\<lambda>b. covid_trips b covid (numbers g)) base_numbers s5;
                          s7 = in_place (\<lambda>b. car_occupancy b occupancy_included1) base_numbers s6;
                          s8 = in_place (\<lambda>b. calculate_emissions b (emission_factors g)
                                                 car_emission_change) base_numbers s7
                      in (Inr base_numbers, s8)))))"

subsection \<open>The rows no stage is meant to write\<close>

text \<open>The six rows for 2018 and for the 2030 baseline, as one value.\<close>

definition fixed_rows :: "dataset \<Rightarrow> row \<times> row \<times> row \<times> row \<times> row \<times> row" where
  "fixed_rows d =
     (pkt_2018 d, vkt_2018 d, pkt_2030_baseline d, vkt_2030_baseline d,
      emissions_2018 d, emissions_2030_baseline d)"

section \<open>Example inputs\<close>

text \<open>A row written out by column, in the order of the mode enumeration.\<close>

fun mk_row :: "real \<Rightarrow> real \<Rightarrow> real \<Rightarrow> real \<Rightarrow> real \<Rightarrow> real \<Rightarrow> real \<Rightarrow> real \<Rightarrow> row" where
  "mk_row a b c d e f g h passenger_light = a"
| "mk_row a b c d e f g h electric_light = b"
| "mk_row a b c d e f g h walking = c"
| "mk_row a b c d e f g h cycling = d"
| "mk_row a b c d e f g h diesel_bus = e"
| "mk_row a b c d e f g h electric_bus = f"
| "mk_row a b c d e f g h heavy_rail = g"
| "mk_row a b c d e f g h light_rail = h"

text \<open>
  A base_numbers.csv whose scenario rows repeat the baseline rows, with light-vehicle vkt
  equal to pkt / 1.58 and walking and cycling vkt equal to their pkt; the emissions rows are
  the placeholders that \<open>data_load\<close> fills.
\<close>

definition example_csv :: dataset where
  "example_csv =
     \<lparr>pkt_2018 = mk_row 1264000 15800 120000 30000 80000 0 20000 0,
      vkt_2018 = mk_row 800000 10000 120000 30000 4000 0 500 0,
      pkt_2030_baseline = mk_row 1580000 158000 150000 50000 100000 0 30000 0,
      vkt_2030_baseline = mk_row 1000000 100000 150000 50000 5000 0 700 0,
      pkt_2030_scenario = mk_row 1580000 158000 150000 50000 100000 0 30000 0,
      vkt_2030_scenario = mk_row 1000000 100000 150000 50000 5000 0 700 0,
      emissions_2018 = (\<lambda>_. 0),
      emissions_2030_baseline = (\<lambda>_. 0),
      emissions_2030_scenario = (\<lambda>_. 0)\<rparr>"

text \<open>The same file with no vehicle distance recorded for walking.\<close>

definition example_walk_csv :: dataset where
  "example_walk_csv =
     example_csv\<lparr>vkt_2018 := mk_row 800000 10000 0 30000 4000 0 500 0,
                 vkt_2030_baseline := mk_row 1000000 100000 0 50000 5000 0 700 0,
                 vkt_2030_scenario := mk_row 1000000 100000 0 50000 5000 0 700 0\<rparr>"

definition example_factors :: emission_factors where
  "example_factors =
     \<lparr>values_2018 = mk_row 0.25 0.02 0 0 1.3 0.1 2 0.5,
      values_2030_baseline = mk_row 0.2 0.02 0 0 1.2 0.1 2 0.5,
      values_2030_scenario = mk_row 0.2 0.02 0 0 1.2 0.1 2 0.5\<rparr>"

definition example_projects :: pt_details where
  "example_projects =
     \<lparr>pt_index = [''crl'', ''northwest''],
      primary_mode = (\<lambda>p. if p = ''crl'' then heavy_rail else light_rail),
      peak_freq = (\<lambda>p. if p = ''crl'' then 10 else 5),
      off_peak_freq = (\<lambda>p. if p = ''crl'' then 20 else 10),
      vehicle_capacity = (\<lambda>p. if p = ''crl'' then 750 else 420),
      distance = (\<lambda>p. if p = ''crl'' then 3.45 else 16),
      num_peak_hrs = (\<lambda>_. 4),
      num_hours = (\<lambda>_. 18)\<rparr>"

text \<open>Unset cells of the example hold a value that no computed effect takes.\<close>

definition example_unset :: row where
  "example_unset = (\<lambda>_. 12345)"

definition example_globals :: globals where
  "example_globals =
     initialisation example_unset example_projects example_csv example_factors"

text \<open>A store in which object 0 is the master frame of the example.\<close>

definition example_store :: store where
  "example_store = \<lparr>frames = (\<lambda>_. master_base_numbers example_globals), fresh = 1\<rparr>"

section \<open>Facts used throughout\<close>

lemma di_fields:
  "private_modes (data_initialisation d) = [passenger_light, electric_light, walking, cycling]"
  "pt_modes (data_initialisation d) = [diesel_bus, electric_bus, heavy_rail, light_rail]"
  "all_modes (data_initialisation d) =
     [passenger_light, electric_light, walking, cycling,
      diesel_bus, electric_bus, heavy_rail, light_rail]"
  "car_occupancy_value (data_initialisation d) = 1.58"
  "bus_lifespan (data_initialisation d) = 15"
  "pkt_annualisation (data_initialisation d) = 2250"
  "vkt_annualisation (data_initialisation d) = 332"
  "mode_sum_pkt (data_initialisation d) =
     pkt_2030_baseline d passenger_light + pkt_2030_baseline d electric_light
     + pkt_2030_baseline d walking + pkt_2030_baseline d cycling"
  "mode_pkt_no_bike (data_initialisation d) =
     pkt_2030_baseline d passenger_light + pkt_2030_baseline d electric_light
     + pkt_2030_baseline d walking"
  by (simp_all add: data_initialisation_def)

lemma example_csv_rows:
  "pkt_2030_baseline example_csv = mk_row 1580000 158000 150000 50000 100000 0 30000 0"
  "vkt_2030_baseline example_csv = mk_row 1000000 100000 150000 50000 5000 0 700 0"
  "pkt_2030_scenario example_csv = mk_row 1580000 158000 150000 50000 100000 0 30000 0"
  "vkt_2030_scenario example_csv = mk_row 1000000 100000 150000 50000 5000 0 700 0"
  by (simp_all add: example_csv_def)

section \<open>Electrification shifts distance between two modes\<close>

text \<open>
  Claim C4. The bus-electrification stage, started in a year after 2019, leaves the sum of
  scenario pkt over diesel_bus and electric_bus unchanged, and likewise the sum of scenario
  vkt: what it adds to electric_bus is the share (2030 - y) / 15 of the diesel_bus value, and
  it takes the same amount from diesel_bus. The car-electrification stage with a fraction
  f > 0 does the same for passenger_light and electric_light with the share f. With
  f = 0.25 and a scenario passenger_light vkt of 1,000,000, it leaves 750,000 on
  passenger_light and adds 250,000 to electric_light.
\<close>

theorem electrification_conserves:
  assumes "2019 < y" and "0 < f"
  shows "vkt_2030_scenario (bus_electric (data_initialisation d) d y) diesel_bus
           + vkt_2030_scenario (bus_electric (data_initialisation d) d y) electric_bus
         = vkt_2030_scenario d diesel_bus + vkt_2030_scenario d electric_bus
       \<and> pkt_2030_scenario (bus_electric (data_initialisation d) d y) diesel_bus
           + pkt_2030_scenario (bus_electric (data_initialisation d) d y) electric_bus
         = pkt_2030_scenario d diesel_bus + pkt_2030_scenario d electric_bus
       \<and> vkt_2030_scenario (bus_electric (data_initialisation d) d y) electric_bus
         = vkt_2030_scenario d electric_bus
           + vkt_2030_scenario d diesel_bus * (real_of_int (2030 - y) / 15)
       \<and> pkt_2030_scenario (bus_electric (data_initialisation d) d y) electric_bus
         = pkt_2030_scenario d electric_bus
           + pkt_2030_scenario d diesel_bus * (real_of_int (2030 - y) / 15)
       \<and> vkt_2030_scenario (car_electric d f) passenger_light
           + vkt_2030_scenario (car_electric d f) electric_light
         = vkt_2030_scenario d passenger_light + vkt_2030_scenario d electric_light
       \<and> pkt_2030_scenario (car_electric d f) passenger_light
           + pkt_2030_scenario (car_electric d f) electric_light
         = pkt_2030_scenario d passenger_light + pkt_2030_scenario d electric_light
       \<and> vkt_2030_scenario (car_electric d f) electric_light
         = vkt_2030_scenario d electric_light + vkt_2030_scenario d passenger_light * f
       \<and> pkt_2030_scenario (car_electric d f) electric_light
         = pkt_2030_scenario d electric_light + pkt_2030_scenario d passenger_light * f
       \<and> (vkt_2030_scenario d passenger_light = 1000000 \<longrightarrow>
            vkt_2030_scenario (car_electric d 0.25) passenger_light = 750000
          \<and> vkt_2030_scenario (car_electric d 0.25) electric_light
              = vkt_2030_scenario d electric_light + 250000
          \<and> vkt_2030_scenario (car_electric d 0.25) passenger_light
              + vkt_2030_scenario (car_electric d 0.25) electric_light
              = 1000000 + vkt_2030_scenario d electric_light)"
  using assms by (simp add: bus_electric_def car_electric_def di_fields Let_def)

theorem electrification_conserves_witness:
  "(2019::int) < 2025 \<and> (0::real) < 0.25
   \<and> vkt_2030_scenario example_csv passenger_light = 1000000
   \<and> vkt_2030_scenario (car_electric example_csv 0.25) passenger_light = 750000
   \<and> vkt_2030_scenario (car_electric example_csv 0.25) electric_light = 350000
   \<and> pkt_2030_scenario (bus_electric (data_initialisation example_csv) example_csv 2025) electric_bus
       + pkt_2030_scenario (bus_electric (data_initialisation example_csv) example_csv 2025) diesel_bus
     = 100000"
  using electrification_conserves [of 2025 "0.25" example_csv]
  by (simp add: example_csv_rows)

section \<open>The trip-reduction stage\<close>

lemma covid_trips_rows:
  "pkt_2030_scenario (covid_trips d p (data_initialisation d0)) =
     (\<lambda>m. (1 - p / 100) * pkt_2030_scenario d m)"
  "vkt_2030_scenario (covid_trips d p (data_initialisation d0)) =
     (vkt_2030_scenario d)
       (walking := (1 - p / 100) * pkt_2030_scenario d walking,
        cycling := (1 - p / 100) * pkt_2030_scenario d cycling,
        electric_light := (1 - p / 100) * pkt_2030_scenario d electric_light / 1.58)"
   apply (rule ext, case_tac m; simp add: covid_trips_def covid_step_def di_fields Let_def)
  apply (rule ext, simp add: covid_trips_def covid_step_def di_fields Let_def)
  done

text \<open>
  Claim C10. For every dataset and every percentage p, \<open>covid_trips\<close> writes exactly
  three cells of the scenario vkt row: walking and cycling, each set to its new scenario
  pkt, and electric_light, set to its new scenario pkt divided by the car occupancy. The
  scenario vkt of passenger_light, diesel_bus, electric_bus, heavy_rail and light_rail is
  as before. The new pkt of a mode is (1 - p / 100) times the old one, so at p = 0 the three
  cells are still overwritten, with the unchanged pkt (divided by 1.58 for electric_light).
\<close>

theorem covid_trips_writes:
  "vkt_2030_scenario (covid_trips d p (data_initialisation d)) =
     (vkt_2030_scenario d)
       (walking := pkt_2030_scenario (covid_trips d p (data_initialisation d)) walking,
        cycling := pkt_2030_scenario (covid_trips d p (data_initialisation d)) cycling,
        electric_light :=
          pkt_2030_scenario (covid_trips d p (data_initialisation d)) electric_light
          / car_occupancy_value (data_initialisation d))
   \<and> vkt_2030_scenario (covid_trips d p (data_initialisation d)) passenger_light
       = vkt_2030_scenario d passenger_light
   \<and> vkt_2030_scenario (covid_trips d p (data_initialisation d)) diesel_bus
       = vkt_2030_scenario d diesel_bus
   \<and> vkt_2030_scenario (covid_trips d p (data_initialisation d)) electric_bus
       = vkt_2030_scenario d electric_bus
   \<and> vkt_2030_scenario (covid_trips d p (data_initialisation d)) heavy_rail
       = vkt_2030_scenario d heavy_rail
   \<and> vkt_2030_scenario (covid_trips d p (data_initialisation d)) light_rail
       = vkt_2030_scenario d light_rail
   \<and> pkt_2030_scenario (covid_trips d p (data_initialisation d)) m
       = (1 - p / 100) * pkt_2030_scenario d m
   \<and> vkt_2030_scenario (covid_trips d 0 (data_initialisation d)) walking
       = pkt_2030_scenario d walking
   \<and> vkt_2030_scenario (covid_trips d 0 (data_initialisation d)) cycling
       = pkt_2030_scenario d cycling
   \<and> vkt_2030_scenario (covid_trips d 0 (data_initialisation d)) electric_light
       = pkt_2030_scenario d electric_light / 1.58"
  by (simp add: covid_trips_rows di_fields)

text \<open>
  Claim C2 says that \<open>covid_trips\<close> leaves the scenario vkt of both light-vehicle modes
  unchanged. It does so for passenger_light only: \<open>electric_light\<close> is in the list of
  the second membership test, and its vkt is recomputed. On the example file a reduction of
  50 per cent takes the electric_light vkt from 100,000 to 50,000.
\<close>

theorem covid_trips_electric_light_counterexample:
  "vkt_2030_scenario example_csv electric_light = 100000
   \<and> vkt_2030_scenario (covid_trips example_csv 50 (data_initialisation example_csv)) electric_light
       = 50000
   \<and> vkt_2030_scenario (covid_trips example_csv 50 (data_initialisation example_csv)) electric_light
       \<noteq> vkt_2030_scenario example_csv electric_light"
  by (simp add: covid_trips_rows example_csv_rows)

text \<open>
  Claim C2 as amended. For every dataset and every percentage p, \<open>covid_trips\<close>
  multiplies the scenario pkt of every mode by (1 - p / 100), sets the scenario vkt of walking
  and of cycling to their new pkt, sets the scenario vkt of electric_light to its new pkt
  divided by the car occupancy, and leaves the scenario vkt of passenger_light unchanged.
\<close>

theorem covid_trips_scales:
  "pkt_2030_scenario (covid_trips d p (data_initialisation d)) m
     = (1 - p / 100) * pkt_2030_scenario d m
   \<and> vkt_2030_scenario (covid_trips d p (data_initialisation d)) walking
       = pkt_2030_scenario (covid_trips d p (data_initialisation d)) walking
   \<and> vkt_2030_scenario (covid_trips d p (data_initialisation d)) cycling
       = pkt_2030_scenario (covid_trips d p (data_initialisation d)) cycling
   \<and> vkt_2030_scenario (covid_trips d p (data_initialisation d)) electric_light
       = pkt_2030_scenario (covid_trips d p (data_initialisation d)) electric_light
         / car_occupancy_value (data_initialisation d)
   \<and> vkt_2030_scenario (covid_trips d p (data_initialisation d)) passenger_light
       = vkt_2030_scenario d passenger_light"
  by (simp add: covid_trips_rows di_fields)

section \<open>The bus-ridership stage\<close>

lemma bus_ridership_rows:
  "0 < r \<Longrightarrow> pkt_2030_scenario (bus_ridership_changes (data_initialisation d0) d r) =
     (\<lambda>m. pkt_2030_scenario d m +
        (if m = diesel_bus then pkt_2030_baseline d diesel_bus * r
         else if m \<in> {passenger_light, electric_light, walking, cycling}
         then - pkt_2030_baseline d m / mode_sum_pkt (data_initialisation d0)
                * (pkt_2030_baseline d diesel_bus * r)
         else 0))"
  "0 < r \<Longrightarrow> vkt_2030_scenario (bus_ridership_changes (data_initialisation d0) d r) =
     (\<lambda>m. vkt_2030_scenario d m +
        (if m \<in> {passenger_light, electric_light}
         then - pkt_2030_baseline d m / mode_sum_pkt (data_initialisation d0)
                * (pkt_2030_baseline d diesel_bus * r) / 1.58
         else if m \<in> {walking, cycling}
         then - pkt_2030_baseline d m / mode_sum_pkt (data_initialisation d0)
                * (pkt_2030_baseline d diesel_bus * r)
         else 0))"
  "\<not> 0 < r \<Longrightarrow> bus_ridership_changes n d r = d"
    apply (rule ext, case_tac m;
      simp add: bus_ridership_changes_def bus_ridership_step_def di_fields(1,4) Let_def)
   apply (rule ext, case_tac m;
      simp add: bus_ridership_changes_def bus_ridership_step_def di_fields(1,4) Let_def)
  apply (simp add: bus_ridership_changes_def)
  done

text \<open>
  Claim C5. For a ridership increase r > 0 the stage adds baseline diesel-bus pkt times r to
  the scenario diesel-bus pkt and subtracts from the scenario pkt of each private or active
  mode m its share, baseline pkt of m over the total private baseline pkt, of that amount;
  the vkt of a light-vehicle mode changes by the pkt change divided by the car occupancy
  1.58, the vkt of walking and cycling by the pkt change itself, and nothing else changes.
  For r \<le> 0 the dataset is returned as it is. With a baseline diesel-bus pkt of 100,000
  and r = 0.4 the amount is 40,000.
\<close>

theorem bus_ridership_shift:
  "(0 < r \<longrightarrow>
      pkt_2030_scenario (bus_ridership_changes (data_initialisation d) d r) diesel_bus
        = pkt_2030_scenario d diesel_bus + pkt_2030_baseline d diesel_bus * r
    \<and> (\<forall>m \<in> set (private_modes (data_initialisation d)).
          pkt_2030_scenario (bus_ridership_changes (data_initialisation d) d r) m
            = pkt_2030_scenario d m
              - pkt_2030_baseline d m / mode_sum_pkt (data_initialisation d)
                * (pkt_2030_baseline d diesel_bus * r))
    \<and> (\<forall>m \<in> {passenger_light, electric_light}.
          vkt_2030_scenario (bus_ridership_changes (data_initialisation d) d r) m
            - vkt_2030_scenario d m
          = (pkt_2030_scenario (bus_ridership_changes (data_initialisation d) d r) m
              - pkt_2030_scenario d m) / car_occupancy_value (data_initialisation d))
    \<and> (\<forall>m \<in> {walking, cycling}.
          vkt_2030_scenario (bus_ridership_changes (data_initialisation d) d r) m
            - vkt_2030_scenario d m
          = pkt_2030_scenario (bus_ridership_changes (data_initialisation d) d r) m
              - pkt_2030_scenario d m)
    \<and> (\<forall>m \<in> {electric_bus, heavy_rail, light_rail}.
          pkt_2030_scenario (bus_ridership_changes (data_initialisation d) d r) m
            = pkt_2030_scenario d m)
    \<and> (\<forall>m \<in> set (pt_modes (data_initialisation d)).
          vkt_2030_scenario (bus_ridership_changes (data_initialisation d) d r) m
            = vkt_2030_scenario d m))
   \<and> (r \<le> 0 \<longrightarrow> bus_ridership_changes (data_initialisation d) d r = d)
   \<and> (pkt_2030_baseline d diesel_bus = 100000 \<longrightarrow>
        pkt_2030_scenario (bus_ridership_changes (data_initialisation d) d 0.4) diesel_bus
          = pkt_2030_scenario d diesel_bus + 40000
      \<and> (\<forall>m \<in> set (private_modes (data_initialisation d)).
            pkt_2030_scenario (bus_ridership_changes (data_initialisation d) d 0.4) m
              = pkt_2030_scenario d m
                - pkt_2030_baseline d m / mode_sum_pkt (data_initialisation d) * 40000))
   \<and> mode_sum_pkt (data_initialisation d)
       = pkt_2030_baseline d passenger_light + pkt_2030_baseline d electric_light
         + pkt_2030_baseline d walking + pkt_2030_baseline d cycling
   \<and> car_occupancy_value (data_initialisation d) = 1.58"
  (is "(0 < r \<longrightarrow> ?A) \<and> (r \<le> 0 \<longrightarrow> ?B) \<and> (?h \<longrightarrow> ?C) \<and> ?D \<and> ?E")
proof -
  have a: ?A if "0 < r"
    using that by (simp add: bus_ridership_rows di_fields(1,2,4))
  have b: ?B if "r \<le> 0"
    using that by (simp add: bus_ridership_rows(3))
  have c: ?C if ?h
    using that by (simp add: bus_ridership_rows di_fields(1,2,4))
  have d: ?D by (simp add: di_fields)
  have e: ?E by (simp add: di_fields)
  from a b c d e show ?thesis by blast
qed

theorem bus_ridership_shift_witness:
  "(0::real) < 0.4 \<and> pkt_2030_baseline example_csv diesel_bus = 100000
   \<and> passenger_light \<in> set (private_modes (data_initialisation example_csv))
   \<and> pkt_2030_scenario (bus_ridership_changes (data_initialisation example_csv) example_csv 0.4)
        diesel_bus = 140000
   \<and> pkt_2030_scenario (bus_ridership_changes (data_initialisation example_csv) example_csv 0.4)
        passenger_light = 1580000 - 1580000 / 1938000 * 40000
   \<and> bus_ridership_changes (data_initialisation example_csv) example_csv 0 = example_csv"
proof -
  have m: "passenger_light \<in> set (private_modes (data_initialisation example_csv))"
    by (simp add: di_fields)
  have z: "(0::real) \<le> 0" by simp
  from bus_ridership_shift [of "0.4" example_csv] bus_ridership_shift [of 0 example_csv] m z
  show ?thesis
    by (simp add: example_csv_rows di_fields)
qed

section \<open>The cycling stage\<close>

text \<open>
  With the private modes in the order of \<open>data_initialisation\<close> the stage never reads
  \<open>effect\<close> unassigned, so it returns a dataset. When the loop reaches cycling, the
  last mode, \<open>effect\<close> still holds the value computed for walking.
\<close>

lemma cycling_changes_rows:
  "\<exists>b. cycling_changes (data_initialisation d0) d c = Inr b
     \<and> pkt_2030_scenario b =
         (if 0 < c then
            (\<lambda>m. pkt_2030_scenario d m +
               (if m = cycling then pkt_2030_baseline d cycling * (c - 1)
                else if m \<in> {passenger_light, electric_light, walking}
                then - pkt_2030_baseline d m / mode_pkt_no_bike (data_initialisation d0)
                       * (pkt_2030_baseline d cycling * (c - 1))
                else 0))
          else pkt_2030_scenario d)
     \<and> vkt_2030_scenario b =
         (if 0 < c then
            (\<lambda>m. vkt_2030_scenario d m +
               (if m \<in> {passenger_light, electric_light}
                then - pkt_2030_baseline d m / mode_pkt_no_bike (data_initialisation d0)
                       * (pkt_2030_baseline d cycling * (c - 1)) / 1.58
                else if m \<in> {walking, cycling}
                then - pkt_2030_baseline d walking / mode_pkt_no_bike (data_initialisation d0)
                       * (pkt_2030_baseline d cycling * (c - 1))
                else 0))
          else vkt_2030_scenario d)
     \<and> pkt_2018 b = pkt_2018 d \<and> vkt_2018 b = vkt_2018 d
     \<and> pkt_2030_baseline b = pkt_2030_baseline d \<and> vkt_2030_baseline b = vkt_2030_baseline d
     \<and> emissions_2018 b = emissions_2018 d
     \<and> emissions_2030_baseline b = emissions_2030_baseline d
     \<and> emissions_2030_scenario b = emissions_2030_scenario d"
proof (cases "0 < c")
  case False
  then show ?thesis by (simp add: cycling_changes_def)
next
  case True
  then show ?thesis
    apply (simp add: cycling_changes_def cycling_step_def di_fields(1,4) Let_def)
    apply (intro conjI ext)
    subgoal for m by (cases m) simp_all
    subgoal for m by (cases m) simp_all
    done
qed

text \<open>
  Claim C3 says that the stage adds (c - 1) times the baseline cycling pkt to the scenario
  cycling pkt and to the scenario cycling vkt. The pkt is so; the vkt of cycling instead
  receives the effect computed for walking, a decrease. On the example file with c = 5 the
  cycling pkt grows by 200,000 and the cycling vkt falls below its value before the stage.
\<close>

theorem cycling_changes_cycling_vkt:
  "\<exists>b. cycling_changes (data_initialisation example_csv) example_csv 5 = Inr b
     \<and> pkt_2030_scenario b cycling = pkt_2030_scenario example_csv cycling + (5 - 1) * 50000
     \<and> vkt_2030_scenario b cycling
         = vkt_2030_scenario example_csv cycling - 150000 / 1888000 * ((5 - 1) * 50000)
     \<and> vkt_2030_scenario b cycling < vkt_2030_scenario example_csv cycling
     \<and> vkt_2030_scenario b cycling \<noteq> vkt_2030_scenario example_csv cycling + (5 - 1) * 50000"
proof -
  obtain b where b: "cycling_changes (data_initialisation example_csv) example_csv 5 = Inr b"
    and v: "vkt_2030_scenario b =
         (if (0::real) < 5 then
            (\<lambda>m. vkt_2030_scenario example_csv m +
               (if m \<in> {passenger_light, electric_light}
                then - pkt_2030_baseline example_csv m / mode_pkt_no_bike (data_initialisation example_csv)
                       * (pkt_2030_baseline example_csv cycling * (5 - 1)) / 1.58
                else if m \<in> {walking, cycling}
                then - pkt_2030_baseline example_csv walking / mode_pkt_no_bike (data_initialisation example_csv)
                       * (pkt_2030_baseline example_csv cycling * (5 - 1))
                else 0))
          else vkt_2030_scenario example_csv)"
    and p: "pkt_2030_scenario b =
         (if (0::real) < 5 then
            (\<lambda>m. pkt_2030_scenario example_csv m +
               (if m = cycling then pkt_2030_baseline example_csv cycling * (5 - 1)
                else if m \<in> {passenger_light, electric_light, walking}
                then - pkt_2030_baseline example_csv m / mode_pkt_no_bike (data_initialisation example_csv)
                       * (pkt_2030_baseline example_csv cycling * (5 - 1))
                else 0))
          else pkt_2030_scenario example_csv)"
    using cycling_changes_rows [of example_csv example_csv 5] by blast
  show ?thesis
    by (rule exI [of _ b]) (simp add: b v p example_csv_rows di_fields)
qed

section \<open>The project effect table\<close>

lemma fold_project_tables:
  "fold (\<lambda>project (tv, tp).
           (case R project of (rv, rp) \<Rightarrow> (tv(project \<mapsto> rv), tp(project \<mapsto> rp))))
        idx (tv0, tp0)
   = ((\<lambda>p. if p \<in> set idx then Some (fst (R p)) else tv0 p),
      (\<lambda>p. if p \<in> set idx then Some (snd (R p)) else tp0 p))"
proof (induction idx arbitrary: tv0 tp0)
  case Nil
  show ?case by simp
next
  case (Cons a idx)
  obtain rv rp where R: "R a = (rv, rp)"
    by (cases "R a")
  have "fold (\<lambda>project (tv, tp).
           (case R project of (rv, rp) \<Rightarrow> (tv(project \<mapsto> rv), tp(project \<mapsto> rp))))
        (a # idx) (tv0, tp0)
      = ((\<lambda>p. if p \<in> set idx then Some (fst (R p)) else (tv0(a \<mapsto> rv)) p),
         (\<lambda>p. if p \<in> set idx then Some (snd (R p)) else (tp0(a \<mapsto> rp)) p))"
    by (simp only: fold_simps R prod.case Cons.IH)
  also have "\<dots> = ((\<lambda>p. if p \<in> set (a # idx) then Some (fst (R p)) else tv0 p),
      (\<lambda>p. if p \<in> set (a # idx) then Some (snd (R p)) else tp0 p))"
    by (auto simp: fun_eq_iff R)
  finally show ?case .
qed

lemma pt_proj_effects_lookup:
  "fst (pt_proj_effects unset nums b det) p =
     (if p \<in> set (pt_index det) then Some (fst (project_rows unset nums b det p)) else None)"
  "snd (pt_proj_effects unset nums b det) p =
     (if p \<in> set (pt_index det) then Some (snd (project_rows unset nums b det p)) else None)"
  by (simp_all add: pt_proj_effects_def fold_project_tables)

lemma project_rows_pkt:
  assumes "primary_mode det p \<in> {diesel_bus, electric_bus, heavy_rail, light_rail}"
  shows "snd (project_rows unset (data_initialisation b) b det p) =
     (\<lambda>m. if m = primary_mode det p
          then (60 / peak_freq det p) * distance det p * 2250 * vehicle_capacity det p * 2 * 2
          else if m \<in> {passenger_light, electric_light, walking, cycling}
          then - pkt_2030_baseline b m / mode_sum_pkt (data_initialisation b)
                 * ((60 / peak_freq det p) * distance det p * 2250 * vehicle_capacity det p * 2 * 2)
          else 0)"
  apply (rule ext)
  subgoal for m
    using assms
    by (cases m; cases "primary_mode det p";
        simp add: project_rows_def private_effect_def pt_effect_def di_fields(1,2,4,6,7) Let_def)
  done

lemma project_rows_vkt:
  assumes "primary_mode det p \<in> {diesel_bus, electric_bus, heavy_rail, light_rail}"
  shows "fst (project_rows unset (data_initialisation b) b det p) =
     (\<lambda>m. if m = primary_mode det p
          then ((60 / peak_freq det p) * num_peak_hrs det p
                 + (60 / off_peak_freq det p) * (num_hours det p - num_peak_hrs det p))
               * distance det p * 332 * 2
          else if m \<in> {passenger_light, electric_light}
          then snd (project_rows unset (data_initialisation b) b det p) m / 1.58
          else if m \<in> {walking, cycling}
          then snd (project_rows unset (data_initialisation b) b det p) m
          else 0)"
  apply (rule ext)
  subgoal for m
    using assms
    by (cases m; cases "primary_mode det p";
        simp add: project_rows_def private_effect_def pt_effect_def di_fields(1,2,4,6,7) Let_def)
  done

text \<open>
  Claim C7. For every project of the table whose primary mode is a transit mode, and
  whatever the unset cells of the two new frames hold, the rows that
  \<open>pt_proj_effects\<close> computes for it satisfy: (1) the pkt and the vkt effect on
  every transit mode other than the primary mode are 0; (2) the pkt effect on a private or
  active mode m is minus its share, baseline pkt of m over the total private baseline pkt,
  of the pkt effect on the primary mode, and it is at most 0 when the baseline pkt values
  and the service characteristics are non-negative, the frequencies positive and the total
  (by which the program divides) positive; (3) the vkt effect on passenger_light and
  electric_light is the pkt effect divided by the car occupancy, and on walking and cycling
  it is the pkt effect.
\<close>

theorem pt_proj_effects_rows:
  assumes "project \<in> set (pt_index det)"
    and "primary_mode det project \<in> set (pt_modes (data_initialisation b))"
  shows "\<exists>rv rp.
      fst (pt_proj_effects unset (data_initialisation b) b det) project = Some rv
    \<and> snd (pt_proj_effects unset (data_initialisation b) b det) project = Some rp
    \<and> (\<forall>m \<in> set (pt_modes (data_initialisation b)).
          m \<noteq> primary_mode det project \<longrightarrow> rp m = 0 \<and> rv m = 0)
    \<and> (\<forall>m \<in> set (private_modes (data_initialisation b)).
          rp m = - (pkt_2030_baseline b m / mode_sum_pkt (data_initialisation b))
                   * rp (primary_mode det project))
    \<and> ((\<forall>m \<in> set (private_modes (data_initialisation b)). 0 \<le> pkt_2030_baseline b m)
        \<and> 0 < mode_sum_pkt (data_initialisation b)
        \<and> 0 < peak_freq det project \<and> 0 < off_peak_freq det project
        \<and> 0 \<le> vehicle_capacity det project \<and> 0 \<le> distance det project
        \<and> 0 \<le> num_peak_hrs det project \<and> 0 \<le> num_hours det project
        \<longrightarrow> (\<forall>m \<in> set (private_modes (data_initialisation b)). rp m \<le> 0))
    \<and> (\<forall>m \<in> {passenger_light, electric_light}.
          rv m = rp m / car_occupancy_value (data_initialisation b))
    \<and> (\<forall>m \<in> {walking, cycling}. rv m = rp m)
    \<and> rp (primary_mode det project)
        = (60 / peak_freq det project) * distance det project
          * pkt_annualisation (data_initialisation b) * vehicle_capacity det project * 2 * 2"
proof -
  let ?n = "data_initialisation b"
  let ?rv = "fst (project_rows unset ?n b det project)"
  let ?rp = "snd (project_rows unset ?n b det project)"
  let ?P = "(60 / peak_freq det project) * distance det project * 2250
              * vehicle_capacity det project * 2 * 2"
  have prim: "primary_mode det project \<in> {diesel_bus, electric_bus, heavy_rail, light_rail}"
    using assms(2) by (simp add: di_fields)
  note rp = project_rows_pkt [OF prim, of unset b]
  note rv = project_rows_vkt [OF prim, of unset b]
  have look: "fst (pt_proj_effects unset ?n b det) project = Some ?rv"
             "snd (pt_proj_effects unset ?n b det) project = Some ?rp"
    using assms(1) by (simp_all add: pt_proj_effects_lookup)
  have zero: "\<forall>m \<in> set (pt_modes ?n). m \<noteq> primary_mode det project \<longrightarrow> ?rp m = 0 \<and> ?rv m = 0"
    by (simp add: rv di_fields(2)) (simp add: rp)
  have primv: "?rp (primary_mode det project) = ?P"
    by (simp add: rp)
  have share: "\<forall>m \<in> set (private_modes ?n).
      ?rp m = - (pkt_2030_baseline b m / mode_sum_pkt ?n) * ?rp (primary_mode det project)"
    using prim unfolding primv by (auto simp add: rp di_fields(1))
  have nonpos: "\<forall>m \<in> set (private_modes ?n). ?rp m \<le> 0"
    if h: "\<forall>m \<in> set (private_modes ?n). 0 \<le> pkt_2030_baseline b m"
      "0 < mode_sum_pkt ?n" "0 < peak_freq det project"
      "0 \<le> vehicle_capacity det project" "0 \<le> distance det project"
  proof
    fix m assume m: "m \<in> set (private_modes ?n)"
    have P: "0 \<le> ?P" using h(3-5) by simp
    have s: "0 \<le> pkt_2030_baseline b m / mode_sum_pkt ?n"
      using h(1,2) m by simp
    have "?rp m = - (pkt_2030_baseline b m / mode_sum_pkt ?n) * ?P"
      using share m primv by simp
    moreover have "0 \<le> (pkt_2030_baseline b m / mode_sum_pkt ?n) * ?P"
      using s P by (rule mult_nonneg_nonneg)
    ultimately show "?rp m \<le> 0"
      by (simp only: mult_minus_left neg_le_0_iff_le)
  qed
  have occ: "\<forall>m \<in> {passenger_light, electric_light}. ?rv m = ?rp m / car_occupancy_value ?n"
    using prim by (auto simp add: rv di_fields(4))
  have walk: "\<forall>m \<in> {walking, cycling}. ?rv m = ?rp m"
    using prim by (auto simp add: rv)
  have primv': "?rp (primary_mode det project)
        = (60 / peak_freq det project) * distance det project
          * pkt_annualisation ?n * vehicle_capacity det project * 2 * 2"
    by (simp add: primv di_fields(6))
  show ?thesis
    apply (rule exI [of _ ?rv], rule exI [of _ ?rp])
    using look zero share nonpos occ walk primv' by blast
qed

lemma example_projects_fields:
  "pt_index example_projects = [''crl'', ''northwest'']"
  "primary_mode example_projects ''crl'' = heavy_rail"
  "primary_mode example_projects ''northwest'' = light_rail"
  "peak_freq example_projects ''crl'' = 10"
  "off_peak_freq example_projects ''crl'' = 20"
  "vehicle_capacity example_projects ''crl'' = 750"
  "distance example_projects ''crl'' = 3.45"
  "num_peak_hrs example_projects ''crl'' = 4"
  "num_hours example_projects ''crl'' = 18"
  "peak_freq example_projects ''northwest'' = 5"
  "off_peak_freq example_projects ''northwest'' = 10"
  "vehicle_capacity example_projects ''northwest'' = 420"
  "distance example_projects ''northwest'' = 16"
  "num_peak_hrs example_projects ''northwest'' = 4"
  "num_hours example_projects ''northwest'' = 18"
  by (simp_all add: example_projects_def)

theorem pt_proj_effects_rows_witness:
  "''crl'' \<in> set (pt_index example_projects)
   \<and> primary_mode example_projects ''crl'' \<in> set (pt_modes (data_initialisation example_csv))
   \<and> (\<exists>rv rp.
        fst (pt_proj_effects example_unset (data_initialisation example_csv) example_csv example_projects)
          ''crl'' = Some rv
      \<and> snd (pt_proj_effects example_unset (data_initialisation example_csv) example_csv example_projects)
          ''crl'' = Some rp
      \<and> rp heavy_rail = 6 * 3.45 * 2250 * 750 * 2 * 2
      \<and> rp light_rail = 0 \<and> rv diesel_bus = 0
      \<and> rp passenger_light = - (1580000 / 1938000) * rp heavy_rail
      \<and> rp passenger_light \<le> 0
      \<and> rv passenger_light = rp passenger_light / 1.58
      \<and> rv walking = rp walking)"
proof -
  have h1: "''crl'' \<in> set (pt_index example_projects)"
    by (simp add: example_projects_fields)
  have h2: "primary_mode example_projects ''crl''
              \<in> set (pt_modes (data_initialisation example_csv))"
    by (simp add: example_projects_fields di_fields)
  have h3: "(\<forall>m \<in> set (private_modes (data_initialisation example_csv)).
               0 \<le> pkt_2030_baseline example_csv m)
        \<and> 0 < mode_sum_pkt (data_initialisation example_csv)
        \<and> 0 < peak_freq example_projects ''crl'' \<and> 0 < off_peak_freq example_projects ''crl''
        \<and> 0 \<le> vehicle_capacity example_projects ''crl'' \<and> 0 \<le> distance example_projects ''crl''
        \<and> 0 \<le> num_peak_hrs example_projects ''crl'' \<and> 0 \<le> num_hours example_projects ''crl''"
    by (simp add: example_projects_fields di_fields example_csv_rows)
  from pt_proj_effects_rows [OF h1 h2] obtain rv rp where
    r: "fst (pt_proj_effects example_unset (data_initialisation example_csv) example_csv example_projects)
          ''crl'' = Some rv"
       "snd (pt_proj_effects example_unset (data_initialisation example_csv) example_csv example_projects)
          ''crl'' = Some rp"
    and z: "\<forall>m \<in> set (pt_modes (data_initialisation example_csv)).
          m \<noteq> primary_mode example_projects ''crl'' \<longrightarrow> rp m = 0 \<and> rv m = 0"
    and s: "\<forall>m \<in> set (private_modes (data_initialisation example_csv)).
          rp m = - (pkt_2030_baseline example_csv m / mode_sum_pkt (data_initialisation example_csv))
                   * rp (primary_mode example_projects ''crl'')"
    and n: "(\<forall>m \<in> set (private_modes (data_initialisation example_csv)).
               0 \<le> pkt_2030_baseline example_csv m)
        \<and> 0 < mode_sum_pkt (data_initialisation example_csv)
        \<and> 0 < peak_freq example_projects ''crl'' \<and> 0 < off_peak_freq example_projects ''crl''
        \<and> 0 \<le> vehicle_capacity example_projects ''crl'' \<and> 0 \<le> distance example_projects ''crl''
        \<and> 0 \<le> num_peak_hrs example_projects ''crl'' \<and> 0 \<le> num_hours example_projects ''crl''
        \<longrightarrow> (\<forall>m \<in> set (private_modes (data_initialisation example_csv)). rp m \<le> 0)"
    and o: "\<forall>m \<in> {passenger_light, electric_light}.
          rv m = rp m / car_occupancy_value (data_initialisation example_csv)"
    and w: "\<forall>m \<in> {walking, cycling}. rv m = rp m"
    and p: "rp (primary_mode example_projects ''crl'')
        = (60 / peak_freq example_projects ''crl'') * distance example_projects ''crl''
          * pkt_annualisation (data_initialisation example_csv)
          * vehicle_capacity example_projects ''crl'' * 2 * 2"
    by blast
  from n h3 have n': "\<forall>m \<in> set (private_modes (data_initialisation example_csv)). rp m \<le> 0"
    by blast
  have "rp heavy_rail = 6 * 3.45 * 2250 * 750 * 2 * 2"
    using p by (simp add: example_projects_fields di_fields)
  moreover have "rp light_rail = 0 \<and> rv diesel_bus = 0"
    using z by (simp add: example_projects_fields di_fields)
  moreover have "rp passenger_light = - (1580000 / 1938000) * rp heavy_rail"
    using s by (simp add: example_projects_fields di_fields example_csv_rows)
  moreover have "rp passenger_light \<le> 0"
    using n' by (simp add: di_fields)
  moreover have "rv passenger_light = rp passenger_light / 1.58"
    using o by (simp add: di_fields)
  moreover have "rv walking = rp walking"
    using w by simp
  ultimately show ?thesis
    using h1 h2 r by blast
qed

section \<open>Applying the selected projects\<close>

lemma loc_rows_pt:
  assumes "set ps \<subseteq> set (pt_index det)"
  shows "loc_rows (fst (pt_proj_effects unset nums b det)) ps
           = Inr (map (\<lambda>p. fst (project_rows unset nums b det p)) ps)"
    and "loc_rows (snd (pt_proj_effects unset nums b det)) ps
           = Inr (map (\<lambda>p. snd (project_rows unset nums b det p)) ps)"
  using assms by (induction ps) (simp_all add: pt_proj_effects_lookup)

lemma pt_projects_apply_rows:
  assumes "set ps \<subseteq> set (pt_index det)"
  shows "\<exists>b. pt_projects_apply d (fst (pt_proj_effects unset nums b0 det))
                (snd (pt_proj_effects unset nums b0 det)) ps = Inr b
     \<and> pkt_2030_scenario b =
         (\<lambda>m. pkt_2030_scenario d m
               + sum_list (map (\<lambda>p. snd (project_rows unset nums b0 det p) m) ps))
     \<and> vkt_2030_scenario b =
         (\<lambda>m. vkt_2030_scenario d m
               + sum_list (map (\<lambda>p. fst (project_rows unset nums b0 det p) m) ps))
     \<and> pkt_2018 b = pkt_2018 d \<and> vkt_2018 b = vkt_2018 d
     \<and> pkt_2030_baseline b = pkt_2030_baseline d \<and> vkt_2030_baseline b = vkt_2030_baseline d
     \<and> emissions_2018 b = emissions_2018 d
     \<and> emissions_2030_baseline b = emissions_2030_baseline d
     \<and> emissions_2030_scenario b = emissions_2030_scenario d"
proof (cases "ps = []")
  case True
  then show ?thesis by (simp add: pt_projects_apply_def)
next
  case False
  then show ?thesis
    using assms
    by (simp add: pt_projects_apply_def loc_rows_pt sum_rows_def Let_def comp_def)
qed

lemma private_effects_sum:
  assumes "\<forall>p \<in> set ps. primary_mode det p \<in> {diesel_bus, electric_bus, heavy_rail, light_rail}"
    and "m \<in> {passenger_light, electric_light, walking, cycling}"
  shows "sum_list (map (\<lambda>p. snd (project_rows unset (data_initialisation b) b det p) m) ps)
     = - pkt_2030_baseline b m / mode_sum_pkt (data_initialisation b)
       * sum_list (map (\<lambda>p. (60 / peak_freq det p) * distance det p * 2250
                              * vehicle_capacity det p * 2 * 2) ps)"
  using assms
proof (induction ps)
  case Nil
  show ?case by simp
next
  case (Cons a ps)
  have ne: "m \<noteq> primary_mode det a"
    using Cons.prems by auto
  have "snd (project_rows unset (data_initialisation b) b det a) m
      = - pkt_2030_baseline b m / mode_sum_pkt (data_initialisation b)
        * ((60 / peak_freq det a) * distance det a * 2250 * vehicle_capacity det a * 2 * 2)"
    using Cons.prems ne by (simp add: project_rows_pkt)
  moreover have "sum_list (map (\<lambda>p. snd (project_rows unset (data_initialisation b) b det p) m) ps)
     = - pkt_2030_baseline b m / mode_sum_pkt (data_initialisation b)
       * sum_list (map (\<lambda>p. (60 / peak_freq det p) * distance det p * 2250
                              * vehicle_capacity det p * 2 * 2) ps)"
    using Cons by simp
  ultimately show ?case
    by (simp only: list.map sum_list.Cons distrib_left)
qed

lemma ratio_of_shares:
  fixes a1 a2 t k :: real
  assumes "d1 = a1 / t * k" and "d2 = a2 / t * k" and "0 < a2"
  shows "d1 * a2 = d2 * a1" and "d2 \<noteq> 0 \<longrightarrow> d1 / d2 = a1 / a2"
proof -
  show c: "d1 * a2 = d2 * a1"
    using assms(1,2) by simp
  show "d2 \<noteq> 0 \<longrightarrow> d1 / d2 = a1 / a2"
    using c assms(3) by (simp add: frac_eq_eq mult.commute)
qed

text \<open>
  Claim C8. Take a dataset whose private and active modes all have a positive baseline pkt.
  After the bus-ridership stage alone, and after the transit-project stage alone (for
  selected projects of the table whose primary modes are transit modes), the decreases of
  scenario pkt of any two private or active modes m1 and m2 are in the ratio of their
  baseline pkt values: decrease of m1 times baseline of m2 equals decrease of m2 times
  baseline of m1, and where the decrease of m2 is not 0 the quotient of the decreases is the
  quotient of the baselines. The mode a lever targets is a transit mode, so it is neither
  m1 nor m2.
\<close>

theorem private_decreases_proportional:
  assumes pos: "\<forall>m \<in> set (private_modes (data_initialisation d)). 0 < pkt_2030_baseline d m"
    and sel: "set pt_included \<subseteq> set (pt_index det)"
    and prim: "\<forall>p \<in> set pt_included.
                 primary_mode det p \<in> set (pt_modes (data_initialisation d))"
    and m1: "m1 \<in> set (private_modes (data_initialisation d))"
    and m2: "m2 \<in> set (private_modes (data_initialisation d))"
  shows "(pkt_2030_scenario d m1
            - pkt_2030_scenario (bus_ridership_changes (data_initialisation d) d r) m1)
           * pkt_2030_baseline d m2
         = (pkt_2030_scenario d m2
              - pkt_2030_scenario (bus_ridership_changes (data_initialisation d) d r) m2)
           * pkt_2030_baseline d m1
       \<and> (pkt_2030_scenario d m2
            - pkt_2030_scenario (bus_ridership_changes (data_initialisation d) d r) m2 \<noteq> 0
          \<longrightarrow> (pkt_2030_scenario d m1
                 - pkt_2030_scenario (bus_ridership_changes (data_initialisation d) d r) m1)
               / (pkt_2030_scenario d m2
                   - pkt_2030_scenario (bus_ridership_changes (data_initialisation d) d r) m2)
               = pkt_2030_baseline d m1 / pkt_2030_baseline d m2)
       \<and> (\<exists>b. pt_projects_apply d (fst (pt_proj_effects unset (data_initialisation d) d det))
                  (snd (pt_proj_effects unset (data_initialisation d) d det)) pt_included = Inr b
            \<and> (pkt_2030_scenario d m1 - pkt_2030_scenario b m1) * pkt_2030_baseline d m2
                = (pkt_2030_scenario d m2 - pkt_2030_scenario b m2) * pkt_2030_baseline d m1
            \<and> (pkt_2030_scenario d m2 - pkt_2030_scenario b m2 \<noteq> 0
                \<longrightarrow> (pkt_2030_scenario d m1 - pkt_2030_scenario b m1)
                     / (pkt_2030_scenario d m2 - pkt_2030_scenario b m2)
                     = pkt_2030_baseline d m1 / pkt_2030_baseline d m2))"
proof -
  let ?n = "data_initialisation d"
  let ?t = "mode_sum_pkt ?n"
  have p1: "m1 \<in> {passenger_light, electric_light, walking, cycling}"
    and p2: "m2 \<in> {passenger_light, electric_light, walking, cycling}"
    using m1 m2 by (simp_all add: di_fields)
  have a2: "0 < pkt_2030_baseline d m2"
    using pos m2 by blast
  have bus: "\<exists>k. (\<forall>m \<in> {passenger_light, electric_light, walking, cycling}.
      pkt_2030_scenario d m - pkt_2030_scenario (bus_ridership_changes ?n d r) m
        = pkt_2030_baseline d m / ?t * k)"
  proof (cases "0 < r")
    case True
    then show ?thesis
      by (intro exI [of _ "pkt_2030_baseline d diesel_bus * r"])
         (simp add: bus_ridership_rows)
  next
    case False
    then show ?thesis
      by (intro exI [of _ 0]) (simp add: bus_ridership_rows)
  qed
  then obtain k where k: "\<And>m. m \<in> {passenger_light, electric_light, walking, cycling} \<Longrightarrow>
      pkt_2030_scenario d m - pkt_2030_scenario (bus_ridership_changes ?n d r) m
        = pkt_2030_baseline d m / ?t * k"
    by blast
  note A = ratio_of_shares [OF k [OF p1] k [OF p2] a2]
  have prim': "\<forall>p \<in> set pt_included.
      primary_mode det p \<in> {diesel_bus, electric_bus, heavy_rail, light_rail}"
    using prim by (simp add: di_fields)
  obtain b where b: "pt_projects_apply d (fst (pt_proj_effects unset ?n d det))
                  (snd (pt_proj_effects unset ?n d det)) pt_included = Inr b"
    and bp: "pkt_2030_scenario b =
         (\<lambda>m. pkt_2030_scenario d m
               + sum_list (map (\<lambda>p. snd (project_rows unset ?n d det p) m) pt_included))"
    using pt_projects_apply_rows [OF sel, of d unset ?n d] by blast
  let ?S = "sum_list (map (\<lambda>p. (60 / peak_freq det p) * distance det p * 2250
                              * vehicle_capacity det p * 2 * 2) pt_included)"
  have dec: "pkt_2030_scenario d m - pkt_2030_scenario b m = pkt_2030_baseline d m / ?t * ?S"
    if "m \<in> {passenger_light, electric_light, walking, cycling}" for m
    by (simp add: bp private_effects_sum [OF prim' that])
  note B = ratio_of_shares [OF dec [OF p1] dec [OF p2] a2]
  show ?thesis
    using A B b by blast
qed

theorem private_decreases_proportional_witness:
  "private_modes (data_initialisation example_csv)
     = [passenger_light, electric_light, walking, cycling]
   \<and> 0 < pkt_2030_baseline example_csv passenger_light
   \<and> 0 < pkt_2030_baseline example_csv electric_light
   \<and> 0 < pkt_2030_baseline example_csv walking
   \<and> 0 < pkt_2030_baseline example_csv cycling
   \<and> set [''crl''] \<subseteq> set (pt_index example_projects)
   \<and> primary_mode example_projects ''crl'' \<in> set (pt_modes (data_initialisation example_csv))
   \<and> passenger_light \<in> set (private_modes (data_initialisation example_csv))
   \<and> walking \<in> set (private_modes (data_initialisation example_csv))
   \<and> pkt_2030_scenario example_csv walking
        - pkt_2030_scenario
            (bus_ridership_changes (data_initialisation example_csv) example_csv 0.4) walking
      \<noteq> 0
   \<and> (pkt_2030_scenario example_csv passenger_light
        - pkt_2030_scenario
            (bus_ridership_changes (data_initialisation example_csv) example_csv 0.4)
            passenger_light)
      / (pkt_2030_scenario example_csv walking
          - pkt_2030_scenario
              (bus_ridership_changes (data_initialisation example_csv) example_csv 0.4) walking)
      = 1580000 / 150000
   \<and> (\<exists>b. pt_projects_apply example_csv
              (fst (pt_proj_effects example_unset (data_initialisation example_csv) example_csv example_projects))
              (snd (pt_proj_effects example_unset (data_initialisation example_csv) example_csv example_projects))
              [''crl''] = Inr b
         \<and> pkt_2030_scenario example_csv walking - pkt_2030_scenario b walking \<noteq> 0
         \<and> (pkt_2030_scenario example_csv passenger_light - pkt_2030_scenario b passenger_light)
            / (pkt_2030_scenario example_csv walking - pkt_2030_scenario b walking)
            = 1580000 / 150000)"
proof -
  let ?n = "data_initialisation example_csv"
  have h1: "\<forall>m \<in> set (private_modes ?n). 0 < pkt_2030_baseline example_csv m"
    by (simp add: di_fields example_csv_rows)
  have h2: "set [''crl''] \<subseteq> set (pt_index example_projects)"
    by (simp add: example_projects_fields)
  have h3: "\<forall>p \<in> set [''crl''].
         primary_mode example_projects p \<in> set (pt_modes ?n)"
    by (simp add: example_projects_fields di_fields)
  have h4: "passenger_light \<in> set (private_modes ?n)"
    and h5: "walking \<in> set (private_modes ?n)"
    by (simp_all add: di_fields)
  have n1: "pkt_2030_scenario example_csv walking
        - pkt_2030_scenario (bus_ridership_changes ?n example_csv 0.4) walking \<noteq> 0"
    by (simp add: bus_ridership_rows di_fields example_csv_rows)
  obtain b' where b': "pt_projects_apply example_csv
              (fst (pt_proj_effects example_unset ?n example_csv example_projects))
              (snd (pt_proj_effects example_unset ?n example_csv example_projects)) [''crl''] = Inr b'"
    and bp: "pkt_2030_scenario b' =
         (\<lambda>m. pkt_2030_scenario example_csv m
               + sum_list (map (\<lambda>p. snd (project_rows example_unset ?n example_csv example_projects p) m)
                   [''crl'']))"
    using pt_projects_apply_rows [OF h2, of example_csv example_unset ?n example_csv] by blast
  have n2: "pkt_2030_scenario example_csv walking - pkt_2030_scenario b' walking \<noteq> 0"
    by (simp add: bp project_rows_pkt example_projects_fields di_fields example_csv_rows)
  from private_decreases_proportional [OF h1 h2 h3 h4 h5, of "0.4" example_unset] b' n1 n2
  have "(pkt_2030_scenario example_csv passenger_light
        - pkt_2030_scenario (bus_ridership_changes ?n example_csv 0.4) passenger_light)
      / (pkt_2030_scenario example_csv walking
          - pkt_2030_scenario (bus_ridership_changes ?n example_csv 0.4) walking)
      = 1580000 / 150000
     \<and> (pkt_2030_scenario example_csv passenger_light - pkt_2030_scenario b' passenger_light)
            / (pkt_2030_scenario example_csv walking - pkt_2030_scenario b' walking)
            = 1580000 / 150000"
    by (simp add: example_csv_rows)
  moreover have "private_modes ?n = [passenger_light, electric_light, walking, cycling]"
    by (simp add: di_fields)
  moreover have "0 < pkt_2030_baseline example_csv passenger_light
      \<and> 0 < pkt_2030_baseline example_csv electric_light
      \<and> 0 < pkt_2030_baseline example_csv walking
      \<and> 0 < pkt_2030_baseline example_csv cycling"
    by (simp add: example_csv_rows)
  moreover have "primary_mode example_projects ''crl'' \<in> set (pt_modes ?n)"
    by (simp add: example_projects_fields di_fields)
  ultimately show ?thesis
    using h2 h4 h5 n1 n2 b' by blast
qed

section \<open>Rows that every stage leaves alone\<close>

lemma fold_bus_ridership_fixed:
  "fixed_rows (fold (bus_ridership_step nums k) ms d) = fixed_rows d"
  by (induction ms arbitrary: d)
     (simp_all add: bus_ridership_step_def fixed_rows_def Let_def)

lemma bus_ridership_changes_fixed:
  "fixed_rows (bus_ridership_changes nums d r) = fixed_rows d"
  by (simp add: bus_ridership_changes_def fold_bus_ridership_fixed Let_def)
     (simp add: fixed_rows_def)

lemma fold_cycling_Inl: "fold (cycling_step nums k) ms (Inl e) = Inl e"
  by (induction ms) (simp_all add: cycling_step_def)

lemma cycling_step_fixed:
  "cycling_step nums k m (Inr (d, e)) = Inr (b, e') \<Longrightarrow> fixed_rows b = fixed_rows d"
  by (auto simp: cycling_step_def fixed_rows_def Let_def split: if_splits option.splits)

lemma fold_cycling_fixed:
  "fold (cycling_step nums k) ms (Inr (d, e)) = Inr (b, e') \<Longrightarrow> fixed_rows b = fixed_rows d"
proof (induction ms arbitrary: d e)
  case Nil
  then show ?case by simp
next
  case (Cons m ms)
  show ?case
  proof (cases "cycling_step nums k m (Inr (d, e))")
    case (Inl x)
    with Cons.prems show ?thesis by (simp add: fold_cycling_Inl)
  next
    case (Inr st)
    obtain d1 e1 where st: "st = (d1, e1)" by (cases st)
    from Cons.prems Inr st have "fold (cycling_step nums k) ms (Inr (d1, e1)) = Inr (b, e')"
      by simp
    then have "fixed_rows b = fixed_rows d1" by (rule Cons.IH)
    moreover from Inr st have "fixed_rows d1 = fixed_rows d"
      by (simp add: cycling_step_fixed)
    ultimately show ?thesis by simp
  qed
qed

lemma cycling_changes_fixed:
  assumes "cycling_changes nums d c = Inr b"
  shows "fixed_rows b = fixed_rows d"
proof (cases "0 < c")
  case False
  with assms show ?thesis by (simp add: cycling_changes_def)
next
  case True
  let ?d1 = "d\<lparr>pkt_2030_scenario :=
              (pkt_2030_scenario d)
                (cycling := pkt_2030_scenario d cycling + pkt_2030_baseline d cycling * (c - 1))\<rparr>"
  from assms True obtain e' where
    "fold (cycling_step nums (pkt_2030_baseline d cycling * (c - 1))) (private_modes nums)
       (Inr (?d1, None)) = Inr (b, e')"
    by (auto simp: cycling_changes_def Let_def split: sum.splits)
  then have "fixed_rows b = fixed_rows ?d1" by (rule fold_cycling_fixed)
  then show ?thesis by (simp add: fixed_rows_def)
qed

lemma fold_covid_fixed:
  "fixed_rows (fold (covid_step nums p) ms d) = fixed_rows d"
  by (induction ms arbitrary: d) (simp_all add: covid_step_def fixed_rows_def Let_def)

lemma covid_trips_fixed: "fixed_rows (covid_trips d p nums) = fixed_rows d"
  by (simp add: covid_trips_def fold_covid_fixed)

lemma pt_projects_apply_fixed:
  "pt_projects_apply d tv tp sel = Inr b \<Longrightarrow> fixed_rows b = fixed_rows d"
  by (auto simp: pt_projects_apply_def fixed_rows_def Let_def split: if_splits sum.splits)

lemma bus_electric_fixed: "fixed_rows (bus_electric nums d y) = fixed_rows d"
  by (simp add: bus_electric_def fixed_rows_def Let_def)

lemma car_electric_fixed: "fixed_rows (car_electric d f) = fixed_rows d"
  by (simp add: car_electric_def fixed_rows_def Let_def)

lemma car_occupancy_fixed: "fixed_rows (car_occupancy d o') = fixed_rows d"
  by (simp add: car_occupancy_def fixed_rows_def Let_def)

lemma calculate_emissions_fixed: "fixed_rows (calculate_emissions d ef e) = fixed_rows d"
  by (simp add: calculate_emissions_def fixed_rows_def Let_def)

lemma update_graph_fixed:
  assumes "update_graph g c r y occ f sel e p = Inr b"
  shows "fixed_rows b = fixed_rows (master_base_numbers g)"
proof -
  from assms obtain b1 b3 where
    b1: "pt_projects_apply (master_base_numbers g) (pt_effects_vkt g) (pt_effects_pkt g) sel
           = Inr b1"
    and b3: "cycling_changes (numbers g) (bus_ridership_changes (numbers g) b1 r) c = Inr b3"
    and b: "b = calculate_emissions
                  (car_occupancy
                     (covid_trips (car_electric (bus_electric (numbers g) b3 y) (f / 100)) p
                        (numbers g))
                     (occ / 100))
                  (emission_factors g) e"
    by (auto simp: update_graph_def Let_def split: sum.splits)
  show ?thesis
    by (simp add: b calculate_emissions_fixed car_occupancy_fixed covid_trips_fixed
        car_electric_fixed bus_electric_fixed cycling_changes_fixed [OF b3]
        bus_ridership_changes_fixed pt_projects_apply_fixed [OF b1])
qed

section \<open>The callback\<close>

lemma data_initialisation_cong:
  "pkt_2030_baseline d = pkt_2030_baseline d' \<Longrightarrow> data_initialisation d = data_initialisation d'"
  by (simp add: data_initialisation_def)

lemma initialisation_fields:
  "master_base_numbers (initialisation unset det csv ef) =
     csv\<lparr>emissions_2018 := (\<lambda>m. values_2018 ef m * vkt_2018 csv m),
         emissions_2030_baseline := (\<lambda>m. values_2030_baseline ef m * vkt_2030_baseline csv m),
         emissions_2030_scenario := (\<lambda>m. values_2030_scenario ef m * vkt_2030_scenario csv m)\<rparr>"
  "numbers (initialisation unset det csv ef) = data_initialisation csv"
  "emission_factors (initialisation unset det csv ef) = ef"
  "pt_effects_vkt (initialisation unset det csv ef) =
     fst (pt_proj_effects unset (data_initialisation csv)
            (master_base_numbers (initialisation unset det csv ef)) det)"
  "pt_effects_pkt (initialisation unset det csv ef) =
     snd (pt_proj_effects unset (data_initialisation csv)
            (master_base_numbers (initialisation unset det csv ef)) det)"
  by (simp_all add: initialisation_def data_load_def Let_def split: prod.splits
      cong: data_initialisation_cong)

lemma master_rows:
  "pkt_2018 (master_base_numbers (initialisation unset det csv ef)) = pkt_2018 csv"
  "vkt_2018 (master_base_numbers (initialisation unset det csv ef)) = vkt_2018 csv"
  "pkt_2030_baseline (master_base_numbers (initialisation unset det csv ef)) = pkt_2030_baseline csv"
  "vkt_2030_baseline (master_base_numbers (initialisation unset det csv ef)) = vkt_2030_baseline csv"
  "pkt_2030_scenario (master_base_numbers (initialisation unset det csv ef)) = pkt_2030_scenario csv"
  "vkt_2030_scenario (master_base_numbers (initialisation unset det csv ef)) = vkt_2030_scenario csv"
  "emissions_2030_baseline (master_base_numbers (initialisation unset det csv ef)) =
     (\<lambda>m. values_2030_baseline ef m * vkt_2030_baseline csv m)"
  by (simp_all add: initialisation_fields(1))

text \<open>
  With the globals of \<open>initialisation\<close> and selected projects that are in the table,
  no stage raises: \<open>update_graph\<close> returns the frame left by the eight stages.
\<close>

lemma update_graph_stages:
  assumes "set sel \<subseteq> set (pt_index det)"
  shows "\<exists>b1 b3.
      pt_projects_apply (master_base_numbers (initialisation unset det csv ef))
        (pt_effects_vkt (initialisation unset det csv ef)) (pt_effects_pkt (initialisation unset det csv ef))
        sel = Inr b1
    \<and> cycling_changes (data_initialisation csv)
        (bus_ridership_changes (data_initialisation csv) b1 r) c = Inr b3
    \<and> update_graph (initialisation unset det csv ef) c r y occ f sel e p =
        Inr (calculate_emissions
               (car_occupancy
                  (covid_trips
                     (car_electric (bus_electric (data_initialisation csv) b3 y) (f / 100)) p
                     (data_initialisation csv))
                  (occ / 100))
               ef e)"
proof -
  let ?g = "initialisation unset det csv ef"
  obtain b1 where b1: "pt_projects_apply (master_base_numbers ?g)
        (pt_effects_vkt ?g) (pt_effects_pkt ?g) sel = Inr b1"
    using pt_projects_apply_rows [OF assms, of "master_base_numbers ?g" unset
        "data_initialisation csv" "master_base_numbers ?g"]
    by (auto simp: initialisation_fields(4,5))
  obtain b3 where b3: "cycling_changes (data_initialisation csv)
        (bus_ridership_changes (data_initialisation csv) b1 r) c = Inr b3"
    using cycling_changes_rows
      [of csv "bus_ridership_changes (data_initialisation csv) b1 r" c] by blast
  show ?thesis
    using b1 b3 by (simp add: update_graph_def initialisation_fields(2,3) Let_def)
qed

lemma update_graph_store_run:
  assumes "master < fresh s"
  shows "(\<forall>r' < fresh s.
            frames (snd (update_graph_store g master c r y occ f sel e p s)) r' = frames s r')
     \<and> (case fst (update_graph_store g master c r y occ f sel e p s) of
           Inl err \<Rightarrow>
             update_graph (g\<lparr>master_base_numbers := frames s master\<rparr>) c r y occ f sel e p
               = Inl err
         | Inr base_numbers \<Rightarrow>
             base_numbers = fresh s
           \<and> update_graph (g\<lparr>master_base_numbers := frames s master\<rparr>) c r y occ f sel e p
               = Inr (frames (snd (update_graph_store g master c r y occ f sel e p s))
                        base_numbers))"
  using assms
  by (auto simp: update_graph_store_def update_graph_def copy_frame_def put_frame_def
      in_place_def Let_def split: sum.splits prod.splits)

text \<open>
  Claim C6. Every stage, for every dataset and every lever value, returns a dataset whose six
  rows pkt_2018, vkt_2018, pkt_2030_baseline, vkt_2030_baseline, emissions_2018 and
  emissions_2030_baseline are those of the dataset it was given, and so does a whole run of
  \<open>update_graph\<close> with respect to the master frame. On the store, a run that starts from
  an allocated master object leaves every object that existed before, the master among
  them, as it was: it works on a newly allocated copy, and what it returns is what
  \<open>update_graph\<close> computes as a function of the master's contents, the effect tables,
  the numbers and the lever values.
\<close>

theorem stages_write_scenario_rows_only:
  "fixed_rows (bus_ridership_changes nums d r) = fixed_rows d
   \<and> fixed_rows (bus_electric nums d y) = fixed_rows d
   \<and> fixed_rows (car_electric d f) = fixed_rows d
   \<and> fixed_rows (covid_trips d p nums) = fixed_rows d
   \<and> fixed_rows (car_occupancy d occ) = fixed_rows d
   \<and> fixed_rows (calculate_emissions d ef e) = fixed_rows d
   \<and> (\<forall>b. pt_projects_apply d tv tp sel = Inr b \<longrightarrow> fixed_rows b = fixed_rows d)
   \<and> (\<forall>b. cycling_changes nums d c = Inr b \<longrightarrow> fixed_rows b = fixed_rows d)
   \<and> (\<forall>b. update_graph g c r y occ f sel e p = Inr b
          \<longrightarrow> fixed_rows b = fixed_rows (master_base_numbers g))
   \<and> (master < fresh s \<longrightarrow>
        (\<forall>r' < fresh s.
            frames (snd (update_graph_store g master c r y occ f sel e p s)) r' = frames s r')
      \<and> frames (snd (update_graph_store g master c r y occ f sel e p s)) master
          = frames s master
      \<and> (case fst (update_graph_store g master c r y occ f sel e p s) of
            Inl err \<Rightarrow>
              update_graph (g\<lparr>master_base_numbers := frames s master\<rparr>) c r y occ f sel e p
                = Inl err
          | Inr base_numbers \<Rightarrow>
              base_numbers \<noteq> master
            \<and> update_graph (g\<lparr>master_base_numbers := frames s master\<rparr>) c r y occ f sel e p
                = Inr (frames (snd (update_graph_store g master c r y occ f sel e p s))
                         base_numbers)))"
proof -
  have st: "(\<forall>r' < fresh s.
            frames (snd (update_graph_store g master c r y occ f sel e p s)) r' = frames s r')
      \<and> frames (snd (update_graph_store g master c r y occ f sel e p s)) master
          = frames s master
      \<and> (case fst (update_graph_store g master c r y occ f sel e p s) of
            Inl err \<Rightarrow>
              update_graph (g\<lparr>master_base_numbers := frames s master\<rparr>) c r y occ f sel e p
                = Inl err
          | Inr base_numbers \<Rightarrow>
              base_numbers \<noteq> master
            \<and> update_graph (g\<lparr>master_base_numbers := frames s master\<rparr>) c r y occ f sel e p
                = Inr (frames (snd (update_graph_store g master c r y occ f sel e p s))
                         base_numbers))"
    if m: "master < fresh s"
    using update_graph_store_run [OF m, of g c r y occ f sel e p] m
    by (auto split: sum.splits)
  show ?thesis
    using st
    by (simp add: bus_ridership_changes_fixed bus_electric_fixed car_electric_fixed
        covid_trips_fixed car_occupancy_fixed calculate_emissions_fixed
        pt_projects_apply_fixed cycling_changes_fixed update_graph_fixed)
qed

lemma example_globals_master:
  "example_globals\<lparr>master_base_numbers := frames example_store 0\<rparr> = example_globals"
  by (simp add: example_store_def)

theorem stages_write_scenario_rows_only_witness:
  "(0::nat) < fresh example_store
   \<and> (\<exists>b. update_graph example_globals 5 0.4 2025 170 25 [''crl''] 0.1 20 = Inr b
         \<and> fixed_rows b = fixed_rows (master_base_numbers example_globals)
         \<and> fst (update_graph_store example_globals 0 5 0.4 2025 170 25 [''crl''] 0.1 20
                  example_store) = Inr 1
         \<and> frames (snd (update_graph_store example_globals 0 5 0.4 2025 170 25 [''crl''] 0.1 20
                          example_store)) 1 = b)
   \<and> frames (snd (update_graph_store example_globals 0 5 0.4 2025 170 25 [''crl''] 0.1 20
                    example_store)) 0
       = master_base_numbers example_globals
   \<and> (\<exists>b. cycling_changes (data_initialisation example_csv) example_csv 5 = Inr b
         \<and> fixed_rows b = fixed_rows example_csv)
   \<and> (\<exists>b. pt_projects_apply example_csv (pt_effects_vkt example_globals)
              (pt_effects_pkt example_globals) [''crl''] = Inr b
         \<and> fixed_rows b = fixed_rows example_csv)"
proof -
  let ?S = "update_graph_store example_globals 0 5 0.4 2025 170 25 [''crl''] 0.1 20 example_store"
  have h0: "(0::nat) < fresh example_store"
    by (simp add: example_store_def)
  have sel: "set [''crl''] \<subseteq> set (pt_index example_projects)"
    by (simp add: example_projects_fields)
  obtain b where b: "update_graph example_globals 5 0.4 2025 170 25 [''crl''] 0.1 20 = Inr b"
    using update_graph_stages [OF sel, of example_unset example_csv example_factors "0.4" 5 2025 170 25
        "0.1" 20]
    unfolding example_globals_def by blast
  obtain b3 where b3: "cycling_changes (data_initialisation example_csv) example_csv 5 = Inr b3"
    using cycling_changes_rows [of example_csv example_csv 5] by blast
  obtain b1 where b1: "pt_projects_apply example_csv (pt_effects_vkt example_globals)
              (pt_effects_pkt example_globals) [''crl''] = Inr b1"
    using pt_projects_apply_rows [OF sel, of example_csv example_unset
        "data_initialisation example_csv" "master_base_numbers example_globals"]
    unfolding example_globals_def initialisation_fields(4,5) by blast
  note T = stages_write_scenario_rows_only [of "data_initialisation example_csv" example_csv
      "0.4" 2025 25 20 170 example_factors "0.1" "pt_effects_vkt example_globals"
      "pt_effects_pkt example_globals" "[''crl'']" 5 example_globals 0 example_store]
  have f1: "fixed_rows b = fixed_rows (master_base_numbers example_globals)"
    using T b by blast
  have f2: "fixed_rows b3 = fixed_rows example_csv"
    using T b3 by blast
  have f3: "fixed_rows b1 = fixed_rows example_csv"
    using T b1 by blast
  have s0: "frames (snd ?S) 0 = frames example_store 0"
    using T h0 by blast
  have s1: "case fst ?S of
            Inl err \<Rightarrow>
              update_graph (example_globals\<lparr>master_base_numbers := frames example_store 0\<rparr>)
                5 0.4 2025 170 25 [''crl''] 0.1 20 = Inl err
          | Inr base_numbers \<Rightarrow>
              base_numbers \<noteq> 0
            \<and> update_graph (example_globals\<lparr>master_base_numbers := frames example_store 0\<rparr>)
                5 0.4 2025 170 25 [''crl''] 0.1 20
                = Inr (frames (snd ?S) base_numbers)"
    using T h0 by blast
  have fs: "fst ?S = Inr 1"
    using update_graph_store_run [OF h0, of example_globals 5 "0.4" 2025 170 25 "[''crl'']" "0.1" 20] b
    by (auto simp: example_globals_master split: sum.splits) (simp add: example_store_def)
  have "update_graph (example_globals\<lparr>master_base_numbers := frames example_store 0\<rparr>)
                5 0.4 2025 170 25 [''crl''] 0.1 20
          = Inr (frames (snd ?S) 1)"
    using s1 unfolding fs sum.case by (rule conjunct2)
  then have "update_graph example_globals 5 0.4 2025 170 25 [''crl''] 0.1 20
          = Inr (frames (snd ?S) 1)"
    unfolding example_globals_master .
  with b have s2: "frames (snd ?S) 1 = b"
    by (simp only: sum.inject)
  have s3: "frames (snd ?S) 0 = master_base_numbers example_globals"
    using s0 by (simp add: example_store_def)
  show ?thesis
    using h0 b f1 fs s2 s3 b3 f2 b1 f3 by blast
qed

section \<open>A run with every lever at its disabled value\<close>

lemma update_graph_disabled:
  "update_graph (initialisation unset det csv ef) 0 0 0 occ 0 [] 0 0 =
     Inr (calculate_emissions
            (car_occupancy
               (covid_trips (master_base_numbers (initialisation unset det csv ef)) 0
                  (data_initialisation csv))
               (occ / 100))
            ef 0)"
  by (simp add: update_graph_def pt_projects_apply_def bus_ridership_changes_def
      cycling_changes_def bus_electric_def car_electric_def initialisation_fields(2,3))

lemma disabled_rows:
  fixes unset det csv ef occ
  defines "b \<equiv> calculate_emissions
            (car_occupancy
               (covid_trips (master_base_numbers (initialisation unset det csv ef)) 0
                  (data_initialisation csv))
               (occ / 100))
            ef 0"
  shows "pkt_2030_scenario b = pkt_2030_scenario csv"
    and "vkt_2030_scenario b =
           (if 0 < occ
            then (vkt_2030_scenario csv)
                   (walking := pkt_2030_scenario csv walking,
                    cycling := pkt_2030_scenario csv cycling,
                    passenger_light := pkt_2030_scenario csv passenger_light / (occ / 100),
                    electric_light := pkt_2030_scenario csv electric_light / (occ / 100))
            else (vkt_2030_scenario csv)
                   (walking := pkt_2030_scenario csv walking,
                    cycling := pkt_2030_scenario csv cycling,
                    electric_light := pkt_2030_scenario csv electric_light / 1.58))"
    and "emissions_2030_scenario b = (\<lambda>m. values_2030_scenario ef m * vkt_2030_scenario b m)"
    and "pkt_2030_baseline b = pkt_2030_baseline csv"
    and "vkt_2030_baseline b = vkt_2030_baseline csv"
    and "emissions_2030_baseline b = (\<lambda>m. values_2030_baseline ef m * vkt_2030_baseline csv m)"
proof -
  let ?c = "covid_trips (master_base_numbers (initialisation unset det csv ef)) 0
              (data_initialisation csv)"
  have cp: "pkt_2030_scenario ?c = pkt_2030_scenario csv"
    by (simp add: covid_trips_rows master_rows)
  have cv: "vkt_2030_scenario ?c =
      (vkt_2030_scenario csv)
        (walking := pkt_2030_scenario csv walking,
         cycling := pkt_2030_scenario csv cycling,
         electric_light := pkt_2030_scenario csv electric_light / 1.58)"
    by (simp add: covid_trips_rows master_rows)
  have cf: "fixed_rows ?c = fixed_rows (master_base_numbers (initialisation unset det csv ef))"
    by (rule covid_trips_fixed)
  show "pkt_2030_scenario b = pkt_2030_scenario csv"
    by (simp add: b_def calculate_emissions_def car_occupancy_def cp Let_def)
  show "vkt_2030_scenario b =
           (if 0 < occ
            then (vkt_2030_scenario csv)
                   (walking := pkt_2030_scenario csv walking,
                    cycling := pkt_2030_scenario csv cycling,
                    passenger_light := pkt_2030_scenario csv passenger_light / (occ / 100),
                    electric_light := pkt_2030_scenario csv electric_light / (occ / 100))
            else (vkt_2030_scenario csv)
                   (walking := pkt_2030_scenario csv walking,
                    cycling := pkt_2030_scenario csv cycling,
                    electric_light := pkt_2030_scenario csv electric_light / 1.58))"
    by (auto simp add: b_def calculate_emissions_def car_occupancy_def cp cv Let_def fun_eq_iff)
  show "emissions_2030_scenario b = (\<lambda>m. values_2030_scenario ef m * vkt_2030_scenario b m)"
    by (rule ext) (simp add: b_def calculate_emissions_def Let_def)
  have "fixed_rows b = fixed_rows (master_base_numbers (initialisation unset det csv ef))"
    by (simp add: b_def calculate_emissions_fixed car_occupancy_fixed cf)
  then show "pkt_2030_baseline b = pkt_2030_baseline csv"
    and "vkt_2030_baseline b = vkt_2030_baseline csv"
    and "emissions_2030_baseline b = (\<lambda>m. values_2030_baseline ef m * vkt_2030_baseline csv m)"
    by (simp_all add: fixed_rows_def master_rows)
qed

lemma example_walk_csv_rows:
  "pkt_2030_baseline example_walk_csv = mk_row 1580000 158000 150000 50000 100000 0 30000 0"
  "vkt_2030_baseline example_walk_csv = mk_row 1000000 100000 0 50000 5000 0 700 0"
  "pkt_2030_scenario example_walk_csv = mk_row 1580000 158000 150000 50000 100000 0 30000 0"
  "vkt_2030_scenario example_walk_csv = mk_row 1000000 100000 0 50000 5000 0 700 0"
  by (simp_all add: example_walk_csv_def example_csv_def)

text \<open>
  Claim C1 says that, for every baseline dataset, a run with every lever disabled gives
  scenario rows equal to the baseline rows. \<open>covid_trips\<close> runs at 0 per cent too and
  then sets the scenario vkt of walking and cycling to their pkt, and of electric_light to
  its pkt / 1.58. For a file whose scenario rows repeat the baseline rows but whose walking
  vkt is 0, the scenario walking vkt comes out as the walking pkt, 150,000, with the
  occupancy slider at its default 158 and also with occupancy 0.
\<close>

theorem no_levers_walking_vkt_counterexample:
  "pkt_2030_scenario example_walk_csv = pkt_2030_baseline example_walk_csv
   \<and> vkt_2030_scenario example_walk_csv = vkt_2030_baseline example_walk_csv
   \<and> values_2030_scenario example_factors = values_2030_baseline example_factors
   \<and> (\<exists>b. update_graph (initialisation example_unset example_projects example_walk_csv example_factors)
              0 0 0 158 0 [] 0 0 = Inr b
         \<and> vkt_2030_baseline b walking = 0
         \<and> vkt_2030_scenario b walking = 150000
         \<and> vkt_2030_scenario b walking \<noteq> vkt_2030_baseline b walking)
   \<and> (\<exists>b. update_graph (initialisation example_unset example_projects example_walk_csv example_factors)
              0 0 0 0 0 [] 0 0 = Inr b
         \<and> vkt_2030_baseline b walking = 0
         \<and> vkt_2030_scenario b walking = 150000
         \<and> vkt_2030_scenario b walking \<noteq> vkt_2030_baseline b walking)"
proof -
  let ?g = "initialisation example_unset example_projects example_walk_csv example_factors"
  have rows: "pkt_2030_scenario example_walk_csv = pkt_2030_baseline example_walk_csv"
    "vkt_2030_scenario example_walk_csv = vkt_2030_baseline example_walk_csv"
    by (simp_all add: example_walk_csv_rows)
  have ef: "values_2030_scenario example_factors = values_2030_baseline example_factors"
    by (simp add: example_factors_def)
  have run: "\<exists>b. update_graph ?g 0 0 0 occ 0 [] 0 0 = Inr b
         \<and> vkt_2030_baseline b walking = 0
         \<and> vkt_2030_scenario b walking = 150000
         \<and> vkt_2030_scenario b walking \<noteq> vkt_2030_baseline b walking" for occ
  proof -
    let ?b = "calculate_emissions
                (car_occupancy
                   (covid_trips (master_base_numbers ?g) 0
                      (data_initialisation example_walk_csv))
                   (occ / 100))
                example_factors 0"
    note R = disabled_rows [of example_unset example_projects example_walk_csv example_factors occ]
    have v: "vkt_2030_scenario ?b walking = 150000"
      by (simp only: R(2)) (simp add: example_walk_csv_rows)
    have bl: "vkt_2030_baseline ?b walking = 0"
      by (simp only: R(5)) (simp add: example_walk_csv_rows)
    show ?thesis
      by (rule exI [of _ ?b]) (simp only: update_graph_disabled v bl, simp)
  qed
  from rows ef run [of 158] run [of 0] show ?thesis
    by blast
qed

text \<open>
  Claim C1 as amended. Take a baseline dataset whose scenario pkt and vkt rows start equal to
  the baseline rows, whose walking and cycling vkt equal their pkt, whose electric_light and
  passenger_light vkt equal their pkt / 1.58, and emission factors whose 2030 scenario row
  equals the 2030 baseline row; take the occupancy lever at 0 or at its default 158. Then a
  run with every other lever disabled returns a dataset whose scenario pkt, vkt and
  emissions rows equal the 2030 baseline rows; in particular the scenario emissions of a
  mode are its baseline emission factor times its baseline vkt.
\<close>

theorem no_levers_keeps_baseline:
  assumes "pkt_2030_scenario csv = pkt_2030_baseline csv"
    and "vkt_2030_scenario csv = vkt_2030_baseline csv"
    and "vkt_2030_baseline csv walking = pkt_2030_baseline csv walking"
    and "vkt_2030_baseline csv cycling = pkt_2030_baseline csv cycling"
    and "vkt_2030_baseline csv electric_light = pkt_2030_baseline csv electric_light / 1.58"
    and "vkt_2030_baseline csv passenger_light = pkt_2030_baseline csv passenger_light / 1.58"
    and "occupancy_included = 0 \<or> occupancy_included = 158"
    and "values_2030_scenario ef = values_2030_baseline ef"
  shows "\<exists>b. update_graph (initialisation unset det csv ef) 0 0 0 occupancy_included 0 [] 0 0 = Inr b
     \<and> pkt_2030_scenario b = pkt_2030_baseline b
     \<and> vkt_2030_scenario b = vkt_2030_baseline b
     \<and> emissions_2030_scenario b = emissions_2030_baseline b
     \<and> emissions_2030_scenario b m = values_2030_baseline ef m * vkt_2030_baseline b m
     \<and> pkt_2030_baseline b = pkt_2030_baseline csv
     \<and> vkt_2030_baseline b = vkt_2030_baseline csv"
proof -
  let ?b = "calculate_emissions
              (car_occupancy
                 (covid_trips (master_base_numbers (initialisation unset det csv ef)) 0
                    (data_initialisation csv))
                 (occupancy_included / 100))
              ef 0"
  note R = disabled_rows [of unset det csv ef occupancy_included]
  have "vkt_2030_scenario ?b =
           (if 0 < occupancy_included
            then (vkt_2030_scenario csv)
                   (walking := pkt_2030_scenario csv walking,
                    cycling := pkt_2030_scenario csv cycling,
                    passenger_light :=
                      pkt_2030_scenario csv passenger_light / (occupancy_included / 100),
                    electric_light :=
                      pkt_2030_scenario csv electric_light / (occupancy_included / 100))
            else (vkt_2030_scenario csv)
                   (walking := pkt_2030_scenario csv walking,
                    cycling := pkt_2030_scenario csv cycling,
                    electric_light := pkt_2030_scenario csv electric_light / 1.58))"
    by (rule R(2))
  also have "\<dots> = vkt_2030_baseline csv"
    using assms(1-7) by (auto simp: fun_eq_iff)
  finally have v: "vkt_2030_scenario ?b = vkt_2030_baseline csv" .
  have e: "emissions_2030_scenario ?b = (\<lambda>m. values_2030_baseline ef m * vkt_2030_baseline csv m)"
    by (simp only: R(3) v assms(8))
  show ?thesis
    by (rule exI [of _ ?b])
       (simp add: update_graph_disabled R(1,4,5,6) v e assms(1))
qed

theorem no_levers_keeps_baseline_witness:
  "pkt_2030_scenario example_csv = pkt_2030_baseline example_csv
   \<and> vkt_2030_scenario example_csv = vkt_2030_baseline example_csv
   \<and> vkt_2030_baseline example_csv walking = pkt_2030_baseline example_csv walking
   \<and> vkt_2030_baseline example_csv cycling = pkt_2030_baseline example_csv cycling
   \<and> vkt_2030_baseline example_csv electric_light
       = pkt_2030_baseline example_csv electric_light / 1.58
   \<and> vkt_2030_baseline example_csv passenger_light
       = pkt_2030_baseline example_csv passenger_light / 1.58
   \<and> values_2030_scenario example_factors = values_2030_baseline example_factors
   \<and> (\<exists>b. update_graph example_globals 0 0 0 158 0 [] 0 0 = Inr b
         \<and> vkt_2030_scenario b = vkt_2030_baseline b
         \<and> pkt_2030_scenario b = pkt_2030_baseline b
         \<and> emissions_2030_scenario b = emissions_2030_baseline b
         \<and> emissions_2030_scenario b passenger_light = 0.2 * 1000000)"
proof -
  have h: "pkt_2030_scenario example_csv = pkt_2030_baseline example_csv"
    "vkt_2030_scenario example_csv = vkt_2030_baseline example_csv"
    "vkt_2030_baseline example_csv walking = pkt_2030_baseline example_csv walking"
    "vkt_2030_baseline example_csv cycling = pkt_2030_baseline example_csv cycling"
    "vkt_2030_baseline example_csv electric_light
       = pkt_2030_baseline example_csv electric_light / 1.58"
    by (simp_all add: example_csv_rows)
  have h6: "vkt_2030_baseline example_csv passenger_light
       = pkt_2030_baseline example_csv passenger_light / 1.58"
    by (simp add: example_csv_rows)
  have h6': "(158::real) = 0 \<or> (158::real) = 158"
    by simp
  have h7: "values_2030_scenario example_factors = values_2030_baseline example_factors"
    by (simp add: example_factors_def)
  from no_levers_keeps_baseline [OF h h6 h6' h7, of example_unset example_projects passenger_light]
  obtain b where b: "update_graph example_globals 0 0 0 158 0 [] 0 0 = Inr b"
    and r: "pkt_2030_scenario b = pkt_2030_baseline b"
      "vkt_2030_scenario b = vkt_2030_baseline b"
      "emissions_2030_scenario b = emissions_2030_baseline b"
      "emissions_2030_scenario b passenger_light
         = values_2030_baseline example_factors passenger_light
           * vkt_2030_baseline b passenger_light"
      "vkt_2030_baseline b = vkt_2030_baseline example_csv"
    unfolding example_globals_def by blast
  have "emissions_2030_scenario b passenger_light = 0.2 * 1000000"
    by (simp add: r(4,5) example_csv_rows example_factors_def)
  with h h6 h7 b r(1-3) show ?thesis
    by blast
qed

section \<open>Raising the bus-ridership lever\<close>

lemma shift_out_mono:
  fixes a b q :: real
  assumes "a \<le> b" and "q \<le> 1"
  shows "a + - (a * q) \<le> b + - (b * q)"
proof -
  have "a * (1 - q) \<le> b * (1 - q)"
    using assms by (intro mult_right_mono) simp_all
  then show ?thesis by (simp add: algebra_simps)
qed

lemma shift_in_mono:
  fixes a b q u v :: real
  assumes "u \<le> v" and "a \<le> b" and "0 \<le> q"
  shows "u + a * q \<le> v + b * q"
  using assms by (intro add_mono mult_right_mono)

text \<open>
  In the lemmas below \<open>x\<close> is the frame of the run with the smaller lever value and
  \<open>z\<close> that of the run with the larger one: \<open>z\<close> has at least as much bus pkt and at
  most as much pkt on every private or active mode.
\<close>

lemma bus_ridership_mono:
  assumes base: "pkt_2030_baseline d = pkt_2030_baseline d0"
    and nn: "0 \<le> pkt_2030_baseline d0 passenger_light" "0 \<le> pkt_2030_baseline d0 electric_light"
      "0 \<le> pkt_2030_baseline d0 walking" "0 \<le> pkt_2030_baseline d0 cycling"
      "0 \<le> pkt_2030_baseline d0 diesel_bus"
    and tot: "0 < mode_sum_pkt (data_initialisation d0)"
    and le: "r1 \<le> r2"
  shows "pkt_2030_scenario (bus_ridership_changes (data_initialisation d0) d r1) diesel_bus
           \<le> pkt_2030_scenario (bus_ridership_changes (data_initialisation d0) d r2) diesel_bus"
    and "pkt_2030_scenario (bus_ridership_changes (data_initialisation d0) d r1) electric_bus
           \<le> pkt_2030_scenario (bus_ridership_changes (data_initialisation d0) d r2) electric_bus"
    and "pkt_2030_scenario (bus_ridership_changes (data_initialisation d0) d r2) passenger_light
           \<le> pkt_2030_scenario (bus_ridership_changes (data_initialisation d0) d r1) passenger_light"
    and "pkt_2030_scenario (bus_ridership_changes (data_initialisation d0) d r2) electric_light
           \<le> pkt_2030_scenario (bus_ridership_changes (data_initialisation d0) d r1) electric_light"
    and "pkt_2030_scenario (bus_ridership_changes (data_initialisation d0) d r2) walking
           \<le> pkt_2030_scenario (bus_ridership_changes (data_initialisation d0) d r1) walking"
    and "pkt_2030_scenario (bus_ridership_changes (data_initialisation d0) d r2) cycling
           \<le> pkt_2030_scenario (bus_ridership_changes (data_initialisation d0) d r1) cycling"
proof -
  let ?n = "data_initialisation d0"
  let ?t = "mode_sum_pkt ?n"
  let ?D = "pkt_2030_baseline d0 diesel_bus"
  define k where "k r = (if 0 < r then ?D * r else 0)" for r :: real
  have k: "k r1 \<le> k r2"
    using le nn(5) by (auto simp: k_def mult_left_mono mult_nonneg_nonneg)
  have rows: "pkt_2030_scenario (bus_ridership_changes ?n d r) =
     (\<lambda>m. pkt_2030_scenario d m +
        (if m = diesel_bus then k r
         else if m \<in> {passenger_light, electric_light, walking, cycling}
         then - pkt_2030_baseline d0 m / ?t * k r
         else 0))" for r
  proof (cases "0 < r")
    case True
    then show ?thesis by (simp add: bus_ridership_rows(1) base k_def fun_eq_iff)
  next
    case False
    then show ?thesis by (simp add: bus_ridership_rows(3) k_def fun_eq_iff)
  qed
  have share: "- a / ?t * k r2 \<le> - a / ?t * k r1" if "0 \<le> a" for a
  proof -
    have "0 \<le> a / ?t" using that tot by simp
    then have "a / ?t * k r1 \<le> a / ?t * k r2"
      using k by (rule mult_left_mono [rotated])
    then show ?thesis by simp
  qed
  show "pkt_2030_scenario (bus_ridership_changes ?n d r1) diesel_bus
           \<le> pkt_2030_scenario (bus_ridership_changes ?n d r2) diesel_bus"
    using k by (simp add: rows)
  show "pkt_2030_scenario (bus_ridership_changes ?n d r1) electric_bus
           \<le> pkt_2030_scenario (bus_ridership_changes ?n d r2) electric_bus"
    by (simp add: rows)
  show "pkt_2030_scenario (bus_ridership_changes ?n d r2) passenger_light
           \<le> pkt_2030_scenario (bus_ridership_changes ?n d r1) passenger_light"
    using share [OF nn(1)] by (simp add: rows)
  show "pkt_2030_scenario (bus_ridership_changes ?n d r2) electric_light
           \<le> pkt_2030_scenario (bus_ridership_changes ?n d r1) electric_light"
    using share [OF nn(2)] by (simp add: rows)
  show "pkt_2030_scenario (bus_ridership_changes ?n d r2) walking
           \<le> pkt_2030_scenario (bus_ridership_changes ?n d r1) walking"
    using share [OF nn(3)] by (simp add: rows)
  show "pkt_2030_scenario (bus_ridership_changes ?n d r2) cycling
           \<le> pkt_2030_scenario (bus_ridership_changes ?n d r1) cycling"
    using share [OF nn(4)] by (simp add: rows)
qed

lemma cycling_changes_mono:
  assumes x': "cycling_changes (data_initialisation d0) x c = Inr x'"
    and z': "cycling_changes (data_initialisation d0) z c = Inr z'"
    and base: "pkt_2030_baseline x = pkt_2030_baseline z"
    and le: "pkt_2030_scenario x diesel_bus \<le> pkt_2030_scenario z diesel_bus"
      "pkt_2030_scenario x electric_bus \<le> pkt_2030_scenario z electric_bus"
      "pkt_2030_scenario z passenger_light \<le> pkt_2030_scenario x passenger_light"
      "pkt_2030_scenario z electric_light \<le> pkt_2030_scenario x electric_light"
      "pkt_2030_scenario z walking \<le> pkt_2030_scenario x walking"
      "pkt_2030_scenario z cycling \<le> pkt_2030_scenario x cycling"
  shows "pkt_2030_scenario x' diesel_bus \<le> pkt_2030_scenario z' diesel_bus"
    and "pkt_2030_scenario x' electric_bus \<le> pkt_2030_scenario z' electric_bus"
    and "pkt_2030_scenario z' passenger_light \<le> pkt_2030_scenario x' passenger_light"
    and "pkt_2030_scenario z' electric_light \<le> pkt_2030_scenario x' electric_light"
    and "pkt_2030_scenario z' walking \<le> pkt_2030_scenario x' walking"
    and "pkt_2030_scenario z' cycling \<le> pkt_2030_scenario x' cycling"
proof -
  have rows: "pkt_2030_scenario b' =
         (if 0 < c then
            (\<lambda>m. pkt_2030_scenario b m +
               (if m = cycling then pkt_2030_baseline b cycling * (c - 1)
                else if m \<in> {passenger_light, electric_light, walking}
                then - pkt_2030_baseline b m / mode_pkt_no_bike (data_initialisation d0)
                       * (pkt_2030_baseline b cycling * (c - 1))
                else 0))
          else pkt_2030_scenario b)"
    if "cycling_changes (data_initialisation d0) b c = Inr b'" for b b'
    using cycling_changes_rows [of d0 b c] that by auto
  note rx = rows [OF x'] and rz = rows [OF z']
  show "pkt_2030_scenario x' diesel_bus \<le> pkt_2030_scenario z' diesel_bus"
    using le(1) by (simp add: rx rz)
  show "pkt_2030_scenario x' electric_bus \<le> pkt_2030_scenario z' electric_bus"
    using le(2) by (simp add: rx rz)
  show "pkt_2030_scenario z' passenger_light \<le> pkt_2030_scenario x' passenger_light"
    using le(3) by (simp add: rx rz base)
  show "pkt_2030_scenario z' electric_light \<le> pkt_2030_scenario x' electric_light"
    using le(4) by (simp add: rx rz base)
  show "pkt_2030_scenario z' walking \<le> pkt_2030_scenario x' walking"
    using le(5) by (simp add: rx rz base)
  show "pkt_2030_scenario z' cycling \<le> pkt_2030_scenario x' cycling"
    using le(6) by (simp add: rx rz base)
qed

lemma bus_electric_mono:
  assumes y: "y \<le> 2030"
    and le: "pkt_2030_scenario x diesel_bus \<le> pkt_2030_scenario z diesel_bus"
      "pkt_2030_scenario x electric_bus \<le> pkt_2030_scenario z electric_bus"
      "pkt_2030_scenario z passenger_light \<le> pkt_2030_scenario x passenger_light"
      "pkt_2030_scenario z electric_light \<le> pkt_2030_scenario x electric_light"
      "pkt_2030_scenario z walking \<le> pkt_2030_scenario x walking"
      "pkt_2030_scenario z cycling \<le> pkt_2030_scenario x cycling"
  shows "pkt_2030_scenario (bus_electric (data_initialisation d0) x y) diesel_bus
           \<le> pkt_2030_scenario (bus_electric (data_initialisation d0) z y) diesel_bus"
    and "pkt_2030_scenario (bus_electric (data_initialisation d0) x y) electric_bus
           \<le> pkt_2030_scenario (bus_electric (data_initialisation d0) z y) electric_bus"
    and "pkt_2030_scenario (bus_electric (data_initialisation d0) z y) passenger_light
           \<le> pkt_2030_scenario (bus_electric (data_initialisation d0) x y) passenger_light"
    and "pkt_2030_scenario (bus_electric (data_initialisation d0) z y) electric_light
           \<le> pkt_2030_scenario (bus_electric (data_initialisation d0) x y) electric_light"
    and "pkt_2030_scenario (bus_electric (data_initialisation d0) z y) walking
           \<le> pkt_2030_scenario (bus_electric (data_initialisation d0) x y) walking"
    and "pkt_2030_scenario (bus_electric (data_initialisation d0) z y) cycling
           \<le> pkt_2030_scenario (bus_electric (data_initialisation d0) x y) cycling"
proof -
  let ?q = "real_of_int (2030 - y) / 15"
  have q0: "0 \<le> ?q" using y by simp
  have q1: "?q \<le> 1" if "2019 < y" using that by simp
  show "pkt_2030_scenario (bus_electric (data_initialisation d0) x y) diesel_bus
           \<le> pkt_2030_scenario (bus_electric (data_initialisation d0) z y) diesel_bus"
    using le(1) shift_out_mono [OF le(1) q1]
    by (simp add: bus_electric_def di_fields(5) Let_def)
  show "pkt_2030_scenario (bus_electric (data_initialisation d0) x y) electric_bus
           \<le> pkt_2030_scenario (bus_electric (data_initialisation d0) z y) electric_bus"
    using le(2) shift_in_mono [OF le(2) le(1) q0]
    by (simp add: bus_electric_def di_fields(5) Let_def)
  show "pkt_2030_scenario (bus_electric (data_initialisation d0) z y) passenger_light
           \<le> pkt_2030_scenario (bus_electric (data_initialisation d0) x y) passenger_light"
    using le(3) by (simp add: bus_electric_def Let_def)
  show "pkt_2030_scenario (bus_electric (data_initialisation d0) z y) electric_light
           \<le> pkt_2030_scenario (bus_electric (data_initialisation d0) x y) electric_light"
    using le(4) by (simp add: bus_electric_def Let_def)
  show "pkt_2030_scenario (bus_electric (data_initialisation d0) z y) walking
           \<le> pkt_2030_scenario (bus_electric (data_initialisation d0) x y) walking"
    using le(5) by (simp add: bus_electric_def Let_def)
  show "pkt_2030_scenario (bus_electric (data_initialisation d0) z y) cycling
           \<le> pkt_2030_scenario (bus_electric (data_initialisation d0) x y) cycling"
    using le(6) by (simp add: bus_electric_def Let_def)
qed

lemma car_electric_mono:
  assumes f: "f \<le> 1"
    and le: "pkt_2030_scenario x diesel_bus \<le> pkt_2030_scenario z diesel_bus"
      "pkt_2030_scenario x electric_bus \<le> pkt_2030_scenario z electric_bus"
      "pkt_2030_scenario z passenger_light \<le> pkt_2030_scenario x passenger_light"
      "pkt_2030_scenario z electric_light \<le> pkt_2030_scenario x electric_light"
      "pkt_2030_scenario z walking \<le> pkt_2030_scenario x walking"
      "pkt_2030_scenario z cycling \<le> pkt_2030_scenario x cycling"
  shows "pkt_2030_scenario (car_electric x f) diesel_bus
           \<le> pkt_2030_scenario (car_electric z f) diesel_bus"
    and "pkt_2030_scenario (car_electric x f) electric_bus
           \<le> pkt_2030_scenario (car_electric z f) electric_bus"
    and "pkt_2030_scenario (car_electric z f) passenger_light
           \<le> pkt_2030_scenario (car_electric x f) passenger_light"
    and "pkt_2030_scenario (car_electric z f) electric_light
           \<le> pkt_2030_scenario (car_electric x f) electric_light"
    and "pkt_2030_scenario (car_electric z f) walking
           \<le> pkt_2030_scenario (car_electric x f) walking"
    and "pkt_2030_scenario (car_electric z f) cycling
           \<le> pkt_2030_scenario (car_electric x f) cycling"
proof -
  have f0: "0 \<le> f" if "0 < f" using that by simp
  show "pkt_2030_scenario (car_electric x f) diesel_bus
           \<le> pkt_2030_scenario (car_electric z f) diesel_bus"
    using le(1) by (simp add: car_electric_def Let_def)
  show "pkt_2030_scenario (car_electric x f) electric_bus
           \<le> pkt_2030_scenario (car_electric z f) electric_bus"
    using le(2) by (simp add: car_electric_def Let_def)
  show "pkt_2030_scenario (car_electric z f) passenger_light
           \<le> pkt_2030_scenario (car_electric x f) passenger_light"
    using le(3) shift_out_mono [OF le(3) f]
    by (simp add: car_electric_def Let_def)
  show "pkt_2030_scenario (car_electric z f) electric_light
           \<le> pkt_2030_scenario (car_electric x f) electric_light"
    using le(4) shift_in_mono [OF le(4) le(3) f0]
    by (simp add: car_electric_def Let_def)
  show "pkt_2030_scenario (car_electric z f) walking
           \<le> pkt_2030_scenario (car_electric x f) walking"
    using le(5) by (simp add: car_electric_def Let_def)
  show "pkt_2030_scenario (car_electric z f) cycling
           \<le> pkt_2030_scenario (car_electric x f) cycling"
    using le(6) by (simp add: car_electric_def Let_def)
qed

lemma last_stages_mono:
  assumes p: "p \<le> 100"
    and le: "pkt_2030_scenario x m \<le> pkt_2030_scenario z m"
  shows "pkt_2030_scenario
           (calculate_emissions
              (car_occupancy (covid_trips x p (data_initialisation d0)) occ) ef e) m
         \<le> pkt_2030_scenario
           (calculate_emissions
              (car_occupancy (covid_trips z p (data_initialisation d0)) occ) ef e) m"
proof -
  have "0 \<le> 1 - p / 100" using p by simp
  then have "(1 - p / 100) * pkt_2030_scenario x m \<le> (1 - p / 100) * pkt_2030_scenario z m"
    using le by (intro mult_left_mono)
  then show ?thesis
    by (simp add: calculate_emissions_def car_occupancy_def covid_trips_rows(1) Let_def)
qed

text \<open>
  Claim C9. Take a dataset whose baseline pkt values are non-negative and whose total private
  baseline pkt is positive, and two ridership values r1 \<le> r2. Applied to that dataset, the
  bus-ridership stage with r2 gives at least as much scenario pkt on diesel_bus and on
  electric_bus as with r1, and at most as much on every private or active mode. The same
  holds for the frames returned by two whole runs of \<open>update_graph\<close> that differ only in
  the ridership value, when the selected projects are in the table and the other levers are
  in range: electrification year at most 2030, car electrification at most 100 per cent and
  trip reduction at most 100 per cent, so that the later stages scale by factors that are
  not negative.
\<close>

theorem bus_ridership_monotone:
  assumes nn: "\<forall>m \<in> set (private_modes (data_initialisation d)). 0 \<le> pkt_2030_baseline d m"
    and db: "0 \<le> pkt_2030_baseline d diesel_bus"
    and tot: "0 < mode_sum_pkt (data_initialisation d)"
    and le: "r1 \<le> r2"
  shows "pkt_2030_scenario (bus_ridership_changes (data_initialisation d) d r1) diesel_bus
           \<le> pkt_2030_scenario (bus_ridership_changes (data_initialisation d) d r2) diesel_bus
     \<and> pkt_2030_scenario (bus_ridership_changes (data_initialisation d) d r1) electric_bus
           \<le> pkt_2030_scenario (bus_ridership_changes (data_initialisation d) d r2) electric_bus
     \<and> (\<forall>m \<in> set (private_modes (data_initialisation d)).
           pkt_2030_scenario (bus_ridership_changes (data_initialisation d) d r2) m
             \<le> pkt_2030_scenario (bus_ridership_changes (data_initialisation d) d r1) m)
     \<and> (set sel \<subseteq> set (pt_index det) \<and> y \<le> 2030 \<and> f \<le> 100 \<and> p \<le> 100 \<longrightarrow>
          (\<exists>x z. update_graph (initialisation unset det d ef) c r1 y occ f sel e p = Inr x
                \<and> update_graph (initialisation unset det d ef) c r2 y occ f sel e p = Inr z
                \<and> pkt_2030_scenario x diesel_bus \<le> pkt_2030_scenario z diesel_bus
                \<and> pkt_2030_scenario x electric_bus \<le> pkt_2030_scenario z electric_bus
                \<and> (\<forall>m \<in> set (private_modes (data_initialisation d)).
                      pkt_2030_scenario z m \<le> pkt_2030_scenario x m)))"
proof -
  let ?n = "data_initialisation d"
  let ?g = "initialisation unset det d ef"
  have nn': "0 \<le> pkt_2030_baseline d passenger_light" "0 \<le> pkt_2030_baseline d electric_light"
      "0 \<le> pkt_2030_baseline d walking" "0 \<le> pkt_2030_baseline d cycling"
    using nn by (simp_all add: di_fields)
  note stage = bus_ridership_mono [OF refl nn' db tot le]
  have run: "\<exists>x z. update_graph ?g c r1 y occ f sel e p = Inr x
                \<and> update_graph ?g c r2 y occ f sel e p = Inr z
                \<and> pkt_2030_scenario x diesel_bus \<le> pkt_2030_scenario z diesel_bus
                \<and> pkt_2030_scenario x electric_bus \<le> pkt_2030_scenario z electric_bus
                \<and> (\<forall>m \<in> set (private_modes ?n).
                      pkt_2030_scenario z m \<le> pkt_2030_scenario x m)"
    if sel: "set sel \<subseteq> set (pt_index det)" and y: "y \<le> 2030" and f: "f \<le> 100"
      and p: "p \<le> 100"
  proof -
    let ?last = "\<lambda>b. calculate_emissions
                       (car_occupancy
                          (covid_trips (car_electric (bus_electric ?n b y) (f / 100)) p ?n)
                          (occ / 100))
                       ef e"
    obtain b1 x3 where b1: "pt_projects_apply (master_base_numbers ?g) (pt_effects_vkt ?g)
                              (pt_effects_pkt ?g) sel = Inr b1"
      and x3: "cycling_changes ?n (bus_ridership_changes ?n b1 r1) c = Inr x3"
      and x: "update_graph ?g c r1 y occ f sel e p = Inr (?last x3)"
      using update_graph_stages [OF sel, of unset d ef r1 c y occ f e p] by blast
    obtain b1' z3 where b1': "pt_projects_apply (master_base_numbers ?g) (pt_effects_vkt ?g)
                              (pt_effects_pkt ?g) sel = Inr b1'"
      and z3': "cycling_changes ?n (bus_ridership_changes ?n b1' r2) c = Inr z3"
      and z: "update_graph ?g c r2 y occ f sel e p = Inr (?last z3)"
      using update_graph_stages [OF sel, of unset d ef r2 c y occ f e p] by blast
    from b1 b1' have "b1' = b1" by simp
    with z3' have z3: "cycling_changes ?n (bus_ridership_changes ?n b1 r2) c = Inr z3"
      by simp
    have "fixed_rows b1 = fixed_rows (master_base_numbers ?g)"
      using b1 by (rule pt_projects_apply_fixed)
    then have base: "pkt_2030_baseline b1 = pkt_2030_baseline d"
      by (simp add: fixed_rows_def master_rows)
    have "fixed_rows (bus_ridership_changes ?n b1 r1) = fixed_rows (bus_ridership_changes ?n b1 r2)"
      by (simp add: bus_ridership_changes_fixed)
    then have same: "pkt_2030_baseline (bus_ridership_changes ?n b1 r1)
                       = pkt_2030_baseline (bus_ridership_changes ?n b1 r2)"
      by (simp add: fixed_rows_def)
    have f': "f / 100 \<le> 1" using f by simp
    note s0 = bus_ridership_mono [OF base nn' db tot le]
    note s1 = cycling_changes_mono [OF x3 z3 same s0]
    note s2 = bus_electric_mono [OF y s1, of d]
    note s3 = car_electric_mono [OF f' s2]
    note s4 = s3 [THEN last_stages_mono [OF p, of _ _ _ d "occ / 100" ef e]]
    have "\<forall>m \<in> set (private_modes ?n).
            pkt_2030_scenario (?last z3) m \<le> pkt_2030_scenario (?last x3) m"
      using s4(3-6) by (simp add: di_fields)
    with x z s4(1,2) show ?thesis by blast
  qed
  have priv: "\<forall>m \<in> set (private_modes ?n).
           pkt_2030_scenario (bus_ridership_changes ?n d r2) m
             \<le> pkt_2030_scenario (bus_ridership_changes ?n d r1) m"
    using stage(3-6) by (simp add: di_fields)
  from stage(1,2) priv run show ?thesis by blast
qed

theorem bus_ridership_monotone_witness:
  "0 \<le> pkt_2030_baseline example_csv passenger_light
   \<and> 0 \<le> pkt_2030_baseline example_csv electric_light
   \<and> 0 \<le> pkt_2030_baseline example_csv walking
   \<and> 0 \<le> pkt_2030_baseline example_csv cycling
   \<and> 0 \<le> pkt_2030_baseline example_csv diesel_bus
   \<and> 0 < mode_sum_pkt (data_initialisation example_csv)
   \<and> (0.4::real) \<le> 0.8
   \<and> set [''crl''] \<subseteq> set (pt_index example_projects)
   \<and> (2025::int) \<le> 2030 \<and> (25::real) \<le> 100 \<and> (20::real) \<le> 100
   \<and> pkt_2030_scenario (bus_ridership_changes (data_initialisation example_csv) example_csv 0.4)
        diesel_bus = 140000
   \<and> pkt_2030_scenario (bus_ridership_changes (data_initialisation example_csv) example_csv 0.8)
        diesel_bus = 180000
   \<and> pkt_2030_scenario (bus_ridership_changes (data_initialisation example_csv) example_csv 0.8)
        walking
      \<le> pkt_2030_scenario (bus_ridership_changes (data_initialisation example_csv) example_csv 0.4)
        walking
   \<and> (\<exists>x z. update_graph example_globals 5 0.4 2025 170 25 [''crl''] 0.1 20 = Inr x
         \<and> update_graph example_globals 5 0.8 2025 170 25 [''crl''] 0.1 20 = Inr z
         \<and> pkt_2030_scenario x diesel_bus \<le> pkt_2030_scenario z diesel_bus
         \<and> pkt_2030_scenario x electric_bus \<le> pkt_2030_scenario z electric_bus
         \<and> pkt_2030_scenario z passenger_light \<le> pkt_2030_scenario x passenger_light
         \<and> pkt_2030_scenario z cycling \<le> pkt_2030_scenario x cycling)"
proof -
  let ?n = "data_initialisation example_csv"
  have h1: "\<forall>m \<in> set (private_modes ?n). 0 \<le> pkt_2030_baseline example_csv m"
    by (simp add: di_fields example_csv_rows)
  have h1': "0 \<le> pkt_2030_baseline example_csv passenger_light
   \<and> 0 \<le> pkt_2030_baseline example_csv electric_light
   \<and> 0 \<le> pkt_2030_baseline example_csv walking
   \<and> 0 \<le> pkt_2030_baseline example_csv cycling"
    by (simp add: example_csv_rows)
  have h2: "0 \<le> pkt_2030_baseline example_csv diesel_bus"
    by (simp add: example_csv_rows)
  have h3: "0 < mode_sum_pkt ?n"
    by (simp add: di_fields example_csv_rows)
  have h4: "(0.4::real) \<le> 0.8" by simp
  have h5: "set [''crl''] \<subseteq> set (pt_index example_projects)"
    by (simp add: example_projects_fields)
  have h6: "(2025::int) \<le> 2030 \<and> (25::real) \<le> 100 \<and> (20::real) \<le> 100" by simp
  note T = bus_ridership_monotone [OF h1 h2 h3 h4, of "[''crl'']" example_projects 2025 25 20
      example_unset example_factors 5 170 "0.1"]
  have priv: "passenger_light \<in> set (private_modes ?n)" "cycling \<in> set (private_modes ?n)"
    "walking \<in> set (private_modes ?n)"
    by (simp_all add: di_fields)
  have w: "pkt_2030_scenario (bus_ridership_changes ?n example_csv 0.8) walking
      \<le> pkt_2030_scenario (bus_ridership_changes ?n example_csv 0.4) walking"
    using T priv(3) by blast
  have v: "pkt_2030_scenario (bus_ridership_changes ?n example_csv 0.4) diesel_bus = 140000"
    "pkt_2030_scenario (bus_ridership_changes ?n example_csv 0.8) diesel_bus = 180000"
    by (simp_all add: bus_ridership_rows example_csv_rows)
  from T h5 h6 obtain x z where
    "update_graph (initialisation example_unset example_projects example_csv example_factors)
        5 0.4 2025 170 25 [''crl''] 0.1 20 = Inr x"
    "update_graph (initialisation example_unset example_projects example_csv example_factors)
        5 0.8 2025 170 25 [''crl''] 0.1 20 = Inr z"
    "pkt_2030_scenario x diesel_bus \<le> pkt_2030_scenario z diesel_bus"
    "pkt_2030_scenario x electric_bus \<le> pkt_2030_scenario z electric_bus"
    "\<forall>m \<in> set (private_modes ?n). pkt_2030_scenario z m \<le> pkt_2030_scenario x m"
    by blast
  with priv have "\<exists>x z. update_graph example_globals 5 0.4 2025 170 25 [''crl''] 0.1 20 = Inr x
         \<and> update_graph example_globals 5 0.8 2025 170 25 [''crl''] 0.1 20 = Inr z
         \<and> pkt_2030_scenario x diesel_bus \<le> pkt_2030_scenario z diesel_bus
         \<and> pkt_2030_scenario x electric_bus \<le> pkt_2030_scenario z electric_bus
         \<and> pkt_2030_scenario z passenger_light \<le> pkt_2030_scenario x passenger_light
         \<and> pkt_2030_scenario z cycling \<le> pkt_2030_scenario x cycling"
    unfolding example_globals_def by blast
  with h1' h2 h3 h4 h5 h6 v w show ?thesis
    by blast
qed

end
